theory Spec2Isabelle
  imports Main "HOL-Library.Word"
begin

unbundle bit_operations_syntax

section \<open>Types of the runtime interface\<close>

text \<open>
  The example managers \<open>CameraManager\<close> and \<open>ChromaKeyManager\<close> talk to a closed-source
  runtime through a session handle. The types below are the ones the two source files
  use; error codes are the constants of the types header.
\<close>

type_synonym varjo_Error = int

abbreviation (input) varjo_NoError :: varjo_Error where
  "varjo_NoError \<equiv> 0"

abbreviation (input) varjo_Error_CameraAlreadyLocked :: varjo_Error where
  "varjo_Error_CameraAlreadyLocked \<equiv> 704"

abbreviation (input) varjo_Error_CameraNotLocked :: varjo_Error where
  "varjo_Error_CameraNotLocked \<equiv> 705"

abbreviation (input) varjo_Error_ChromaKeyAlreadyLocked :: varjo_Error where
  "varjo_Error_ChromaKeyAlreadyLocked \<equiv> 709"

abbreviation (input) varjo_Error_ChromaKeyNotLocked :: varjo_Error where
  "varjo_Error_ChromaKeyNotLocked \<equiv> 710"

datatype varjo_LockType = varjo_LockType_Camera | varjo_LockType_ChromaKey

datatype varjo_CameraPropertyType =
    varjo_CameraPropertyType_ExposureTime
  | varjo_CameraPropertyType_ISOValue
  | varjo_CameraPropertyType_WhiteBalance
  | varjo_CameraPropertyType_FlickerCompensation
  | varjo_CameraPropertyType_Sharpness

datatype varjo_CameraPropertyMode =
    varjo_CameraPropertyMode_Off
  | varjo_CameraPropertyMode_Auto
  | varjo_CameraPropertyMode_Manual

datatype varjo_CameraPropertyConfigType =
    varjo_CameraPropertyConfigType_List
  | varjo_CameraPropertyConfigType_Range

text \<open>
  The type tag of a property value. \<open>varjo_CameraPropertyDataType_Other\<close> stands for
  every tag value that is none of the three named ones (the \<open>default\<close> label of
  \<open>propertyValueToString\<close>; \<open>findPropertyValueIndex\<close> has no label for it).
\<close>

datatype varjo_CameraPropertyDataType =
    varjo_CameraPropertyDataType_Bool
  | varjo_CameraPropertyDataType_Int
  | varjo_CameraPropertyDataType_Double
  | varjo_CameraPropertyDataType_Other

text \<open>
  Modelled from the spec: the declaration of \<open>varjo_CameraPropertyValue\<close> is not among
  the sources. The spec calls it a tagged union over bool, int and double plus a type
  tag, and the code reads \<open>.type\<close>, \<open>.value.boolValue\<close>, \<open>.value.intValue\<close> and
  \<open>.value.doubleValue\<close>. A C union stores its members in the same bytes, so the value
  is the tag and one 64-bit payload: \<open>intValue\<close> is the payload as \<open>int64_t\<close>,
  \<open>doubleValue\<close> is the payload as an IEEE 754 binary64 pattern, and \<open>boolValue\<close>
  (\<open>varjo_Bool\<close> is \<open>int32_t\<close>) is its low 32 bits.
\<close>

record varjo_CameraPropertyValue =
  type :: varjo_CameraPropertyDataType
  payload :: "64 word"

definition intValue :: "varjo_CameraPropertyValue \<Rightarrow> 64 word" where
  "intValue v = payload v"

definition boolValue :: "varjo_CameraPropertyValue \<Rightarrow> 32 word" where
  "boolValue v = ucast (payload v)"

definition doubleValue :: "varjo_CameraPropertyValue \<Rightarrow> 64 word" where
  "doubleValue v = payload v"

text \<open>
  The operator \<open>==\<close> of C++ on two doubles, on their bit patterns: a NaN (exponent bits
  all set, fraction not zero) equals nothing, the two zeros equal each other, and any
  other two doubles are equal when their patterns are.
\<close>

definition double_isnan :: "64 word \<Rightarrow> bool" where
  "double_isnan w \<longleftrightarrow>
     (w AND 0x7FF0000000000000) = 0x7FF0000000000000 \<and> (w AND 0x000FFFFFFFFFFFFF) \<noteq> 0"

definition double_iszero :: "64 word \<Rightarrow> bool" where
  "double_iszero w \<longleftrightarrow> (w AND 0x7FFFFFFFFFFFFFFF) = 0"

definition double_eq :: "64 word \<Rightarrow> 64 word \<Rightarrow> bool" where
  "double_eq a b \<longleftrightarrow>
     \<not> double_isnan a \<and> \<not> double_isnan b \<and> (a = b \<or> (double_iszero a \<and> double_iszero b))"

datatype varjo_ChromaKeyType =
    varjo_ChromaKeyType_Disabled
  | varjo_ChromaKeyType_HSV
  | varjo_ChromaKeyType_Unknown

text \<open>
  A chroma key configuration: the type and the three HSV parameter vectors, each
  component a 32-bit float pattern. The managers only pass the parameters on.
\<close>

record varjo_ChromaKeyConfig =
  ckType :: varjo_ChromaKeyType
  targetColor :: "32 word list"
  tolerance :: "32 word list"
  falloff :: "32 word list"

section \<open>The session: device state and a record of what was called\<close>

text \<open>
  Every function of the runtime that the managers call, with its arguments.
  \<open>varjo_Lock\<close> is recorded apart, together with what it returned.
\<close>

datatype api_call =
    Unlock varjo_LockType
  | GetError
  | MRGetCameraPropertyMode varjo_CameraPropertyType
  | MRGetCameraPropertyValue varjo_CameraPropertyType
  | MRGetCameraPropertyModeCount varjo_CameraPropertyType
  | MRGetCameraPropertyModes varjo_CameraPropertyType
  | MRGetCameraPropertyConfigType varjo_CameraPropertyType
  | MRGetCameraPropertyValueCount varjo_CameraPropertyType
  | MRGetCameraPropertyValues varjo_CameraPropertyType
  | MRSetCameraPropertyMode varjo_CameraPropertyType varjo_CameraPropertyMode
  | MRSetCameraPropertyValue varjo_CameraPropertyType varjo_CameraPropertyValue
  | MRResetCameraProperties
  | MRSetChromaKeyConfig int varjo_ChromaKeyConfig
  | MRSetChromaKey bool

datatype log_level = LOGD | LOGI | LOGW | LOGE | CRITICAL

datatype event =
    Call api_call
  | LockCall varjo_LockType bool
  | Log log_level string

datatype lock_holder = Unheld | HeldBySelf | HeldByOther

record camera_property =
  prop_modes :: "varjo_CameraPropertyMode list"
  prop_configType :: varjo_CameraPropertyConfigType
  prop_values :: "varjo_CameraPropertyValue list"
  prop_mode :: varjo_CameraPropertyMode
  prop_value :: varjo_CameraPropertyValue
  prop_defaultMode :: varjo_CameraPropertyMode
  prop_defaultValue :: varjo_CameraPropertyValue

text \<open>
  Modelled from the spec: the runtime behind \<open>varjo_Session\<close> is closed source. The
  session holds what the spec says the device holds (per lock type who holds the
  cross-process lock; per camera property the supported modes, the config type, the
  supported manual values, the current mode and value; the chroma key switch and its
  configuration slots), the latest error, which \<open>varjo_GetError\<close> returns and clears,
  and \<open>faults\<close>, the error the device answers a given call with (\<open>varjo_NoError\<close> when it
  accepts the call). \<open>calls\<close> records every call and log line in order.
\<close>

record varjo_Session =
  lockHolder :: "varjo_LockType \<Rightarrow> lock_holder"
  camera :: "varjo_CameraPropertyType \<Rightarrow> camera_property"
  chromaKey :: bool
  chromaKeyConfigs :: "varjo_ChromaKeyConfig list"
  lastError :: varjo_Error
  faults :: "api_call \<Rightarrow> varjo_Error"
  calls :: "event list"

text \<open>
  Modelled from the spec: the logging macros are not among the sources. A log line is
  recorded with its level and its format string.
\<close>

definition emit :: "event \<Rightarrow> varjo_Session \<Rightarrow> varjo_Session" where
  "emit e s = s\<lparr>calls := calls s @ [e]\<rparr>"

definition log :: "log_level \<Rightarrow> string \<Rightarrow> varjo_Session \<Rightarrow> varjo_Session" where
  "log l msg s = emit (Log l msg) s"

definition notLockedError :: "varjo_LockType \<Rightarrow> varjo_Error" where
  "notLockedError lt =
     (case lt of varjo_LockType_Camera \<Rightarrow> varjo_Error_CameraNotLocked
               | varjo_LockType_ChromaKey \<Rightarrow> varjo_Error_ChromaKeyNotLocked)"

definition alreadyLockedError :: "varjo_LockType \<Rightarrow> varjo_Error" where
  "alreadyLockedError lt =
     (case lt of varjo_LockType_Camera \<Rightarrow> varjo_Error_CameraAlreadyLocked
               | varjo_LockType_ChromaKey \<Rightarrow> varjo_Error_ChromaKeyAlreadyLocked)"

text \<open>
  Modelled from the spec: \<open>varjo_Lock\<close> is a try-acquire that can fail rather than
  block. It is granted when nobody holds the lock, and denied, with an error left in
  the session, otherwise.
\<close>

definition varjo_Lock :: "varjo_LockType \<Rightarrow> varjo_Session \<Rightarrow> bool \<times> varjo_Session" where
  "varjo_Lock lt s =
     (if lockHolder s lt = Unheld
      then (True, emit (LockCall lt True) (s\<lparr>lockHolder := (lockHolder s)(lt := HeldBySelf)\<rparr>))
      else (False, emit (LockCall lt False) (s\<lparr>lastError := alreadyLockedError lt\<rparr>)))"

text \<open>
  Modelled from the spec: a call that changes the device is answered with the injected
  fault if there is one, with the not-locked error when the call needs the lock of a
  resource class and this client does not hold it, and takes effect otherwise. A
  refused call changes nothing but the latest error.
\<close>

definition guarded ::
  "api_call \<Rightarrow> varjo_LockType option \<Rightarrow> (varjo_Session \<Rightarrow> varjo_Session) \<Rightarrow> varjo_Session \<Rightarrow> varjo_Session" where
  "guarded c need effect s =
     (let s1 = emit (Call c) s in
      if faults s c \<noteq> varjo_NoError then s1\<lparr>lastError := faults s c\<rparr>
      else case need of
             None \<Rightarrow> effect s1
           | Some lt \<Rightarrow>
               if lockHolder s lt \<noteq> HeldBySelf then s1\<lparr>lastError := notLockedError lt\<rparr>
               else effect s1)"

definition varjo_Unlock :: "varjo_LockType \<Rightarrow> varjo_Session \<Rightarrow> varjo_Session" where
  "varjo_Unlock lt s =
     guarded (Unlock lt) (Some lt) (\<lambda>s1. s1\<lparr>lockHolder := (lockHolder s1)(lt := Unheld)\<rparr>) s"

definition varjo_GetError :: "varjo_Session \<Rightarrow> varjo_Error \<times> varjo_Session" where
  "varjo_GetError s = (lastError s, (emit (Call GetError) s)\<lparr>lastError := varjo_NoError\<rparr>)"

text \<open>
  Modelled from the spec: the getters return what the session holds and leave nothing
  but their call in the record.
\<close>

definition varjo_MRGetCameraPropertyMode ::
  "varjo_CameraPropertyType \<Rightarrow> varjo_Session \<Rightarrow> varjo_CameraPropertyMode \<times> varjo_Session" where
  "varjo_MRGetCameraPropertyMode t s =
     (prop_mode (camera s t), emit (Call (MRGetCameraPropertyMode t)) s)"

definition varjo_MRGetCameraPropertyValue ::
  "varjo_CameraPropertyType \<Rightarrow> varjo_Session \<Rightarrow> varjo_CameraPropertyValue \<times> varjo_Session" where
  "varjo_MRGetCameraPropertyValue t s =
     (prop_value (camera s t), emit (Call (MRGetCameraPropertyValue t)) s)"

definition varjo_MRGetCameraPropertyModeCount ::
  "varjo_CameraPropertyType \<Rightarrow> varjo_Session \<Rightarrow> nat \<times> varjo_Session" where
  "varjo_MRGetCameraPropertyModeCount t s =
     (length (prop_modes (camera s t)), emit (Call (MRGetCameraPropertyModeCount t)) s)"

text \<open>
  The array getters fill a caller's buffer of \<open>n\<close> entries: the first \<open>n\<close> supported
  entries.
\<close>

definition varjo_MRGetCameraPropertyModes ::
  "varjo_CameraPropertyType \<Rightarrow> nat \<Rightarrow> varjo_Session \<Rightarrow> varjo_CameraPropertyMode list \<times> varjo_Session" where
  "varjo_MRGetCameraPropertyModes t n s =
     (take n (prop_modes (camera s t)), emit (Call (MRGetCameraPropertyModes t)) s)"

definition varjo_MRGetCameraPropertyConfigType ::
  "varjo_CameraPropertyType \<Rightarrow> varjo_Session \<Rightarrow> varjo_CameraPropertyConfigType \<times> varjo_Session" where
  "varjo_MRGetCameraPropertyConfigType t s =
     (prop_configType (camera s t), emit (Call (MRGetCameraPropertyConfigType t)) s)"

definition varjo_MRGetCameraPropertyValueCount ::
  "varjo_CameraPropertyType \<Rightarrow> varjo_Session \<Rightarrow> nat \<times> varjo_Session" where
  "varjo_MRGetCameraPropertyValueCount t s =
     (length (prop_values (camera s t)), emit (Call (MRGetCameraPropertyValueCount t)) s)"

definition varjo_MRGetCameraPropertyValues ::
  "varjo_CameraPropertyType \<Rightarrow> nat \<Rightarrow> varjo_Session \<Rightarrow> varjo_CameraPropertyValue list \<times> varjo_Session" where
  "varjo_MRGetCameraPropertyValues t n s =
     (take n (prop_values (camera s t)), emit (Call (MRGetCameraPropertyValues t)) s)"

definition varjo_MRSetCameraPropertyMode ::
  "varjo_CameraPropertyType \<Rightarrow> varjo_CameraPropertyMode \<Rightarrow> varjo_Session \<Rightarrow> varjo_Session" where
  "varjo_MRSetCameraPropertyMode t m s =
     guarded (MRSetCameraPropertyMode t m) (Some varjo_LockType_Camera)
       (\<lambda>s1. s1\<lparr>camera := (camera s1)(t := (camera s1 t)\<lparr>prop_mode := m\<rparr>)\<rparr>) s"

definition varjo_MRSetCameraPropertyValue ::
  "varjo_CameraPropertyType \<Rightarrow> varjo_CameraPropertyValue \<Rightarrow> varjo_Session \<Rightarrow> varjo_Session" where
  "varjo_MRSetCameraPropertyValue t v s =
     guarded (MRSetCameraPropertyValue t v) (Some varjo_LockType_Camera)
       (\<lambda>s1. s1\<lparr>camera := (camera s1)(t := (camera s1 t)\<lparr>prop_value := v\<rparr>)\<rparr>) s"

definition varjo_MRResetCameraProperties :: "varjo_Session \<Rightarrow> varjo_Session" where
  "varjo_MRResetCameraProperties s =
     guarded MRResetCameraProperties (Some varjo_LockType_Camera)
       (\<lambda>s1. s1\<lparr>camera := (\<lambda>t. (camera s1 t)\<lparr>prop_mode := prop_defaultMode (camera s1 t),
                                               prop_value := prop_defaultValue (camera s1 t)\<rparr>)\<rparr>) s"

text \<open>
  Modelled from the spec: the macro \<open>CHECK_VARJO_ERR\<close> is not among the sources. It
  queries the latest error (which clears it), logs it when there is one, and evaluates
  to it.
\<close>

definition CHECK_VARJO_ERR :: "varjo_Session \<Rightarrow> varjo_Error \<times> varjo_Session" where
  "CHECK_VARJO_ERR s =
     (let (err, s1) = varjo_GetError s
      in (err, if err \<noteq> varjo_NoError then log LOGE ''Varjo error'' s1 else s1))"

text \<open>
  Modelled from the spec: switching chroma keying needs no lock; writing a
  configuration slot needs the chroma key lock and a slot index below the slot count
  (\<open>varjo_Error_IndexOutOfBounds\<close> is 14).
\<close>

definition varjo_MRSetChromaKey :: "bool \<Rightarrow> varjo_Session \<Rightarrow> varjo_Session" where
  "varjo_MRSetChromaKey enabled s =
     guarded (MRSetChromaKey enabled) None (\<lambda>s1. s1\<lparr>chromaKey := enabled\<rparr>) s"

definition varjo_MRSetChromaKeyConfig ::
  "int \<Rightarrow> varjo_ChromaKeyConfig \<Rightarrow> varjo_Session \<Rightarrow> varjo_Session" where
  "varjo_MRSetChromaKeyConfig index config s =
     guarded (MRSetChromaKeyConfig index config) (Some varjo_LockType_ChromaKey)
       (\<lambda>s1. if 0 \<le> index \<and> index < int (length (chromaKeyConfigs s1))
             then s1\<lparr>chromaKeyConfigs := (chromaKeyConfigs s1)[nat index := config]\<rparr>
             else s1\<lparr>lastError := 14\<rparr>) s"

section \<open>CameraManager\<close>

text \<open>
  The manager's only member is the session, so every member function is a function of
  the session. Log lines carry their format string. The vectors hold at most
  \<open>2^31 - 1\<close> entries (the device's counts are \<open>int32_t\<close>), so the \<open>int\<close> indices of
  the source do not overflow and are integers here.
\<close>

definition getPropertyModeList ::
  "varjo_CameraPropertyType \<Rightarrow> varjo_Session \<Rightarrow> varjo_CameraPropertyMode list \<times> varjo_Session" where
  "getPropertyModeList propertyType s =
     (let (n, s1) = varjo_MRGetCameraPropertyModeCount propertyType s;
          (modes, s2) = varjo_MRGetCameraPropertyModes propertyType n s1;
          (_, s3) = CHECK_VARJO_ERR s2
      in (modes, s3))"

definition getPropertyValueList ::
  "varjo_CameraPropertyType \<Rightarrow> varjo_Session \<Rightarrow> varjo_CameraPropertyValue list \<times> varjo_Session" where
  "getPropertyValueList propertyType s =
     (let (conf, s1) = varjo_MRGetCameraPropertyConfigType propertyType s;
          (_, s2) = CHECK_VARJO_ERR s1
      in if conf \<noteq> varjo_CameraPropertyConfigType_List
         then ([], log LOGE ''Expected a property list.'' s2)
         else
           let (valueCount, s3) = varjo_MRGetCameraPropertyValueCount propertyType s2;
               (values, s4) = varjo_MRGetCameraPropertyValues propertyType valueCount s3;
               (_, s5) = CHECK_VARJO_ERR s4
           in (values, s5))"

text \<open>\<open>std::find\<close> and \<open>std::distance\<close>: the first position of the mode, or -1.\<close>

fun findPropertyModeIndex_from ::
  "int \<Rightarrow> varjo_CameraPropertyMode \<Rightarrow> varjo_CameraPropertyMode list \<Rightarrow> int" where
  "findPropertyModeIndex_from i mode [] = -1"
| "findPropertyModeIndex_from i mode (m # modes) =
     (if m = mode then i else findPropertyModeIndex_from (i + 1) mode modes)"

definition findPropertyModeIndex ::
  "varjo_CameraPropertyMode \<Rightarrow> varjo_CameraPropertyMode list \<Rightarrow> int" where
  "findPropertyModeIndex mode modes = findPropertyModeIndex_from 0 mode modes"

text \<open>
  The loop of \<open>findPropertyValueIndex\<close> from index \<open>i\<close> on: the \<open>switch\<close> is on the
  type of the searched value, and each label compares one member of the two unions.
\<close>

fun findPropertyValueIndex_from ::
  "int \<Rightarrow> varjo_CameraPropertyValue \<Rightarrow> varjo_CameraPropertyValue list \<Rightarrow> int" where
  "findPropertyValueIndex_from i propertyValue [] = -1"
| "findPropertyValueIndex_from i propertyValue (val # values) =
     (case type propertyValue of
        varjo_CameraPropertyDataType_Bool \<Rightarrow>
          if boolValue propertyValue = boolValue val then i
          else findPropertyValueIndex_from (i + 1) propertyValue values
      | varjo_CameraPropertyDataType_Double \<Rightarrow>
          if double_eq (doubleValue propertyValue) (doubleValue val) then i
          else findPropertyValueIndex_from (i + 1) propertyValue values
      | varjo_CameraPropertyDataType_Int \<Rightarrow>
          if intValue propertyValue = intValue val then i
          else findPropertyValueIndex_from (i + 1) propertyValue values
      | varjo_CameraPropertyDataType_Other \<Rightarrow>
          findPropertyValueIndex_from (i + 1) propertyValue values)"

definition findPropertyValueIndex ::
  "varjo_CameraPropertyValue \<Rightarrow> varjo_CameraPropertyValue list \<Rightarrow> int" where
  "findPropertyValueIndex propertyValue values = findPropertyValueIndex_from 0 propertyValue values"

text \<open>
  \<open>index % supportedValues.size()\<close> converts the \<open>int\<close> index to \<open>size_t\<close> and divides
  by the size; with an empty vector that is a division by zero, which is undefined
  behaviour. The model stops there with a fault.
\<close>

datatype fault = ModuloByZero

definition moduloIndex :: "int \<Rightarrow> nat \<Rightarrow> nat" where
  "moduloIndex index n = nat (index mod 2 ^ 64) mod n"

definition setPropertyValueToModuloIndex ::
  "varjo_CameraPropertyType \<Rightarrow> int \<Rightarrow> varjo_Session \<Rightarrow> fault + varjo_Session" where
  "setPropertyValueToModuloIndex propertyType index s =
     (let (supportedValues, s1) = getPropertyValueList propertyType s
      in if length supportedValues = 0 then Inl ModuloByZero
         else
           let nextPropertyValue = supportedValues ! moduloIndex index (length supportedValues);
               s2 = log LOGI ''Setting the camera property manual value to: %s'' s1;
               s3 = varjo_MRSetCameraPropertyValue propertyType nextPropertyValue s2;
               (_, s4) = CHECK_VARJO_ERR s3
           in Inr s4)"

definition setPropertyModeToModuloIndex ::
  "varjo_CameraPropertyType \<Rightarrow> int \<Rightarrow> varjo_Session \<Rightarrow> fault + varjo_Session" where
  "setPropertyModeToModuloIndex t index s =
     (let (supportedModes, s1) = getPropertyModeList t s
      in if length supportedModes = 0 then Inl ModuloByZero
         else
           let nextPropertyMode = supportedModes ! moduloIndex index (length supportedModes);
               s2 = log LOGI ''Setting the camera property mode to: %s'' s1
           in case (if nextPropertyMode = varjo_CameraPropertyMode_Manual
                    then setPropertyValueToModuloIndex t 0 s2 else Inr s2) of
                Inl f \<Rightarrow> Inl f
              | Inr s3 \<Rightarrow>
                  let s4 = varjo_MRSetCameraPropertyMode t nextPropertyMode s3;
                      (_, s5) = CHECK_VARJO_ERR s4
                  in Inr s5)"


text \<open>The unlock and its error check, as they close every path that holds the lock.\<close>

definition unlockCamera :: "varjo_Session \<Rightarrow> varjo_Session" where
  "unlockCamera s = snd (CHECK_VARJO_ERR (varjo_Unlock varjo_LockType_Camera s))"

text \<open>
  The end of \<open>applyNextModeOrValue\<close> ("Otherwise set the next mode"), which both the
  branch of a mode other than Manual and the branch of the last manual value reach.
\<close>

definition applyNextMode ::
  "varjo_CameraPropertyType \<Rightarrow> varjo_CameraPropertyMode \<Rightarrow> varjo_CameraPropertyMode list
     \<Rightarrow> varjo_Session \<Rightarrow> fault + varjo_Session" where
  "applyNextMode t currentMode supportedModes s =
     (let currentModeIndex = findPropertyModeIndex currentMode supportedModes
      in case (if currentModeIndex = -1 then Inr (log LOGE ''Error finding current mode: %d'' s)
               else setPropertyModeToModuloIndex t (currentModeIndex + 1) s) of
           Inl f \<Rightarrow> Inl f
         | Inr s1 \<Rightarrow> Inr (unlockCamera s1))"

definition applyNextModeOrValue ::
  "varjo_CameraPropertyType \<Rightarrow> varjo_Session \<Rightarrow> fault + varjo_Session" where
  "applyNextModeOrValue t s =
     (let (ret, s1) = varjo_Lock varjo_LockType_Camera s;
          (_, s2) = CHECK_VARJO_ERR s1
      in if \<not> ret then Inr (log LOGE ''Could not change mixed reality camera settings.'' s2)
         else
           let (currentMode, s3) = varjo_MRGetCameraPropertyMode t s2;
               (supportedModes, s4) = getPropertyModeList t s3
           in if currentMode = varjo_CameraPropertyMode_Manual
              then
                let (currentValue, s5) = varjo_MRGetCameraPropertyValue t s4;
                    (supportedValues, s6) = getPropertyValueList t s5;
                    currentValueIndex = findPropertyValueIndex currentValue supportedValues
                in if currentValueIndex = -1
                   then Inr (unlockCamera (log LOGE ''Error finding current value: %d'' s6))
                   else if currentValueIndex + 1 < int (length supportedValues)
                   then (case setPropertyValueToModuloIndex t (currentValueIndex + 1) s6 of
                           Inl f \<Rightarrow> Inl f
                         | Inr s7 \<Rightarrow> Inr (unlockCamera s7))
                   else applyNextMode t currentMode supportedModes s6
              else applyNextMode t currentMode supportedModes s4)"


section \<open>ChromaKeyManager\<close>

text \<open>
  The members of the manager next to the session: the two shadow flags and the slot
  count fetched by the constructor.
\<close>

record ChromaKeyManager =
  m_configLocked :: bool
  m_chromaKeyEnabled :: bool
  m_count :: int

definition CHECK_CONFIG_LOCK :: "ChromaKeyManager \<Rightarrow> varjo_Session \<Rightarrow> varjo_Session" where
  "CHECK_CONFIG_LOCK m s =
     (if \<not> m_configLocked m then log LOGE ''Config lock required for this action.'' s else s)"

definition print :: "varjo_ChromaKeyConfig \<Rightarrow> varjo_Session \<Rightarrow> varjo_Session" where
  "print config s =
     (case ckType config of
        varjo_ChromaKeyType_Disabled \<Rightarrow> log LOGD ''%s type=%s'' s
      | varjo_ChromaKeyType_HSV \<Rightarrow>
          log LOGD ''%s type=%s, color=(%.3f, %.2f, %.2f), tolerance=(%.2f, %.2f, %.2f), falloff=(%.2f, %.2f, %.2f)'' s
      | varjo_ChromaKeyType_Unknown \<Rightarrow> log LOGD ''%s type=Unknown(%d)'' s)"

definition lockConfig ::
  "ChromaKeyManager \<Rightarrow> varjo_Session \<Rightarrow> bool \<times> ChromaKeyManager \<times> varjo_Session" where
  "lockConfig m s =
     (let s1 = log LOGD ''Locking chroma key config.'' s
      in if m_configLocked m
         then (m_configLocked m, m, log LOGW ''Config already locked.'' s1)
         else
           let (ret, s2) = varjo_Lock varjo_LockType_ChromaKey s1;
               m1 = m\<lparr>m_configLocked := ret\<rparr>;
               (_, s3) = CHECK_VARJO_ERR s2;
               s4 = (if \<not> m_configLocked m1
                     then log LOGE ''Getting chroma key config lock failed.'' s3 else s3)
           in (m_configLocked m1, m1, s4))"

definition unlockConfig ::
  "ChromaKeyManager \<Rightarrow> varjo_Session \<Rightarrow> ChromaKeyManager \<times> varjo_Session" where
  "unlockConfig m s =
     (let s1 = log LOGD ''Unlocking chroma key config.'' s
      in if \<not> m_configLocked m
         then (m, log LOGW ''Config already unlocked.'' s1)
         else
           let s2 = CHECK_CONFIG_LOCK m s1;
               s3 = varjo_Unlock varjo_LockType_ChromaKey s2;
               (_, s4) = CHECK_VARJO_ERR s3
           in (m\<lparr>m_configLocked := False\<rparr>, s4))"

definition toggleChromaKeying ::
  "bool \<Rightarrow> ChromaKeyManager \<Rightarrow> varjo_Session \<Rightarrow> bool \<times> ChromaKeyManager \<times> varjo_Session" where
  "toggleChromaKeying enabled m s =
     (let s1 = log LOGI ''Toggle chroma keying: %s'' s
      in if enabled = m_chromaKeyEnabled m
         then (False, m,
               log LOGW (if enabled then ''Feature already enabled.''
                         else ''Feature already disabled.'') s1)
         else
           let s2 = varjo_MRSetChromaKey enabled s1;
               (err, s3) = CHECK_VARJO_ERR s2
           in if err = varjo_NoError
              then (True, m\<lparr>m_chromaKeyEnabled := enabled\<rparr>, s3)
              else (False, m, s3))"

definition setConfig ::
  "int \<Rightarrow> varjo_ChromaKeyConfig \<Rightarrow> ChromaKeyManager \<Rightarrow> varjo_Session
     \<Rightarrow> bool \<times> ChromaKeyManager \<times> varjo_Session" where
  "setConfig index config m s =
     (let s1 = print config s;
          s2 = CHECK_CONFIG_LOCK m s1;
          s3 = varjo_MRSetChromaKeyConfig index config s2;
          (err, s4) = CHECK_VARJO_ERR s3
      in (err = varjo_NoError, m, s4))"

section \<open>Reading the record of calls\<close>

text \<open>What an operation added to the record of the session it started from.\<close>

definition new_events :: "varjo_Session \<Rightarrow> varjo_Session \<Rightarrow> event list" where
  "new_events s s' = drop (length (calls s)) (calls s')"

fun is_device_call :: "event \<Rightarrow> bool" where
  "is_device_call (Log l msg) = False"
| "is_device_call e = True"

text \<open>The calls that change the device: the setters and the reset.\<close>

fun mutating :: "api_call \<Rightarrow> bool" where
  "mutating (MRSetCameraPropertyMode t m) = True"
| "mutating (MRSetCameraPropertyValue t v) = True"
| "mutating MRResetCameraProperties = True"
| "mutating (MRSetChromaKeyConfig i c) = True"
| "mutating (MRSetChromaKey b) = True"
| "mutating c = False"

fun is_mutation :: "event \<Rightarrow> bool" where
  "is_mutation (Call c) = mutating c"
| "is_mutation e = False"

text \<open>The camera protocol: lock attempts, unlocks and mutations of the camera.\<close>

fun camera_mutating :: "api_call \<Rightarrow> bool" where
  "camera_mutating (MRSetCameraPropertyMode t m) = True"
| "camera_mutating (MRSetCameraPropertyValue t v) = True"
| "camera_mutating MRResetCameraProperties = True"
| "camera_mutating c = False"

fun camera_protocol :: "event \<Rightarrow> bool" where
  "camera_protocol (LockCall lt r) = (lt = varjo_LockType_Camera)"
| "camera_protocol (Call c) = (c = Unlock varjo_LockType_Camera \<or> camera_mutating c)"
| "camera_protocol (Log l msg) = False"





text \<open>\<open>applyNextModeOrValue\<close> called \<open>n\<close> times in a row.\<close>

fun advance_times :: "nat \<Rightarrow> varjo_CameraPropertyType \<Rightarrow> varjo_Session \<Rightarrow> fault + varjo_Session" where
  "advance_times 0 t s = Inr s"
| "advance_times (Suc n) t s =
     (case applyNextModeOrValue t s of Inl f \<Rightarrow> Inl f | Inr s1 \<Rightarrow> advance_times n t s1)"

text \<open>The current (mode, value) pair of a property after an operation that returned.\<close>

definition current_pair ::
  "varjo_CameraPropertyType \<Rightarrow> fault + varjo_Session
     \<Rightarrow> (varjo_CameraPropertyMode \<times> varjo_CameraPropertyValue) option" where
  "current_pair t r =
     (case r of Inl f \<Rightarrow> None
              | Inr s \<Rightarrow> Some (prop_mode (camera s t), prop_value (camera s t)))"

section \<open>The scenario of the specification\<close>

definition int_value :: "64 word \<Rightarrow> varjo_CameraPropertyValue" where
  "int_value n = \<lparr>type = varjo_CameraPropertyDataType_Int, payload = n\<rparr>"

definition double_value :: "64 word \<Rightarrow> varjo_CameraPropertyValue" where
  "double_value bits = \<lparr>type = varjo_CameraPropertyDataType_Double, payload = bits\<rparr>"

text \<open>
  Modes Off, Auto, Manual; manual values 100 and 200; the property in Manual at 200.
\<close>

definition scenario_property :: camera_property where
  "scenario_property =
     \<lparr>prop_modes = [varjo_CameraPropertyMode_Off, varjo_CameraPropertyMode_Auto,
                    varjo_CameraPropertyMode_Manual],
      prop_configType = varjo_CameraPropertyConfigType_List,
      prop_values = [int_value 100, int_value 200],
      prop_mode = varjo_CameraPropertyMode_Manual,
      prop_value = int_value 200,
      prop_defaultMode = varjo_CameraPropertyMode_Auto,
      prop_defaultValue = int_value 100\<rparr>"

text \<open>A session in which nobody holds a lock and the device refuses nothing.\<close>

definition session_of :: "camera_property \<Rightarrow> varjo_Session" where
  "session_of p =
     \<lparr>lockHolder = (\<lambda>lt. Unheld),
      camera = (\<lambda>t. p),
      chromaKey = False,
      chromaKeyConfigs = [],
      lastError = varjo_NoError,
      faults = (\<lambda>c. varjo_NoError),
      calls = []\<rparr>"

definition scenario :: varjo_Session where
  "scenario = session_of scenario_property"

text \<open>
  The comparison that the \<open>switch\<close> of \<open>findPropertyValueIndex\<close> makes between the
  searched value and one entry: the label is chosen by the type of the searched value,
  and the same member of both unions is read.
\<close>

definition payload_equal_as ::
  "varjo_CameraPropertyValue \<Rightarrow> varjo_CameraPropertyValue \<Rightarrow> bool" where
  "payload_equal_as propertyValue val =
     (case type propertyValue of
        varjo_CameraPropertyDataType_Bool \<Rightarrow> boolValue propertyValue = boolValue val
      | varjo_CameraPropertyDataType_Double \<Rightarrow>
          double_eq (doubleValue propertyValue) (doubleValue val)
      | varjo_CameraPropertyDataType_Int \<Rightarrow> intValue propertyValue = intValue val
      | varjo_CameraPropertyDataType_Other \<Rightarrow> False)"

definition manager_of :: "bool \<Rightarrow> bool \<Rightarrow> ChromaKeyManager" where
  "manager_of locked enabled =
     \<lparr>m_configLocked = locked, m_chromaKeyEnabled = enabled, m_count = 4\<rparr>"

text \<open>A session whose device answers the call \<open>c\<close> with the error \<open>e\<close>.\<close>

definition refusing :: "api_call \<Rightarrow> varjo_Error \<Rightarrow> varjo_Session \<Rightarrow> varjo_Session" where
  "refusing c e s = s\<lparr>faults := (faults s)(c := e)\<rparr>"

text \<open>A session in which this client holds the lock \<open>lt\<close> on the device.\<close>

definition holding :: "varjo_LockType \<Rightarrow> varjo_Session \<Rightarrow> varjo_Session" where
  "holding lt s = s\<lparr>lockHolder := (lockHolder s)(lt := HeldBySelf)\<rparr>"

text \<open>What \<open>createConfigDisabled\<close> returns: a zeroed configuration of type Disabled.\<close>

definition disabled_config :: varjo_ChromaKeyConfig where
  "disabled_config =
     \<lparr>ckType = varjo_ChromaKeyType_Disabled, targetColor = [0, 0, 0], tolerance = [0, 0, 0],
      falloff = [0, 0, 0]\<rparr>"

section \<open>The cycle of modes and values\<close>




text \<open>The property has the mode list \<open>M\<close> and the value list \<open>V\<close>, a discrete list.\<close>

definition framed ::
  "varjo_CameraPropertyMode list \<Rightarrow> varjo_CameraPropertyValue list \<Rightarrow> camera_property \<Rightarrow> bool" where
  "framed M V p \<longleftrightarrow>
     prop_modes p = M \<and> prop_values p = V \<and>
     prop_configType p = varjo_CameraPropertyConfigType_List"


section \<open>Names for the proofs\<close>

text \<open>
  The line that \<open>CHECK_VARJO_ERR\<close> logs for an error code, if any.
\<close>

definition errlog :: "varjo_Error \<Rightarrow> event list" where
  "errlog e = (if e \<noteq> varjo_NoError then [Log LOGE ''Varjo error''] else [])"

text \<open>
  Whether the device accepts a call: no injected fault, and the lock held if one is needed.
\<close>

definition accepted :: "api_call \<Rightarrow> varjo_LockType option \<Rightarrow> varjo_Session \<Rightarrow> bool" where
  "accepted c need s \<longleftrightarrow>
     faults s c = varjo_NoError \<and>
     (case need of None \<Rightarrow> True | Some lt \<Rightarrow> lockHolder s lt = HeldBySelf)"

text \<open>
  The latest error of the session after a call that changes the device.
\<close>

definition refusal :: "api_call \<Rightarrow> varjo_LockType option \<Rightarrow> varjo_Session \<Rightarrow> varjo_Error" where
  "refusal c need s =
     (if faults s c \<noteq> varjo_NoError then faults s c
      else case need of None \<Rightarrow> lastError s
           | Some lt \<Rightarrow> if lockHolder s lt \<noteq> HeldBySelf then notLockedError lt else lastError s)"

text \<open>
  What \<open>getPropertyValueList\<close> returns for a property: its values when the config type
  is a discrete list, nothing otherwise.
\<close>

definition listed_values :: "camera_property \<Rightarrow> varjo_CameraPropertyValue list" where
  "listed_values p =
     (if prop_configType p = varjo_CameraPropertyConfigType_List then prop_values p else [])"

text \<open>
  The sessions that \<open>applyNextModeOrValue\<close> passes through: after the lock attempt and
  its error check, after reading the current mode and the mode list, and after reading
  the current value and the value list.
\<close>

definition afterLock :: "varjo_Session \<Rightarrow> varjo_Session" where
  "afterLock s = snd (CHECK_VARJO_ERR (snd (varjo_Lock varjo_LockType_Camera s)))"

definition afterModes :: "varjo_CameraPropertyType \<Rightarrow> varjo_Session \<Rightarrow> varjo_Session" where
  "afterModes t s =
     snd (getPropertyModeList t (snd (varjo_MRGetCameraPropertyMode t (afterLock s))))"

definition afterValues :: "varjo_CameraPropertyType \<Rightarrow> varjo_Session \<Rightarrow> varjo_Session" where
  "afterValues t s =
     snd (getPropertyValueList t (snd (varjo_MRGetCameraPropertyValue t (afterModes t s))))"

text \<open>
  The property after the end of \<open>applyNextModeOrValue\<close> ("set the next mode") on a
  device that holds the lock and refuses nothing; \<open>None\<close> when the modulo by zero is
  reached.
\<close>

definition next_mode_property :: "camera_property \<Rightarrow> camera_property option" where
  "next_mode_property p =
     (let k = findPropertyModeIndex (prop_mode p) (prop_modes p)
      in if k = -1 then Some p
         else if prop_modes p = [] then None
         else
           let m = prop_modes p ! moduloIndex (k + 1) (length (prop_modes p))
           in if m = varjo_CameraPropertyMode_Manual
              then (if listed_values p = [] then None
                    else Some (p\<lparr>prop_value := listed_values p ! 0, prop_mode := m\<rparr>))
              else Some (p\<lparr>prop_mode := m\<rparr>))"

text \<open>
  The property after one \<open>applyNextModeOrValue\<close> on a device that grants the lock and
  refuses nothing.
\<close>

definition next_property :: "camera_property \<Rightarrow> camera_property option" where
  "next_property p =
     (if prop_mode p = varjo_CameraPropertyMode_Manual
      then
        let i = findPropertyValueIndex (prop_value p) (listed_values p)
        in if i = -1 then Some p
           else if i + 1 < int (length (listed_values p))
           then Some (p\<lparr>prop_value :=
                  listed_values p ! moduloIndex (i + 1) (length (listed_values p))\<rparr>)
           else next_mode_property p
      else next_mode_property p)"

text \<open>A session whose camera lock is free and whose device refuses no call.\<close>

definition willing :: "varjo_Session \<Rightarrow> bool" where
  "willing s \<longleftrightarrow> lockHolder s varjo_LockType_Camera = Unheld \<and> (\<forall>c. faults s c = varjo_NoError)"

fun next_property_times :: "nat \<Rightarrow> camera_property \<Rightarrow> camera_property option" where
  "next_property_times 0 p = Some p"
| "next_property_times (Suc n) p =
     (case next_property p of None \<Rightarrow> None | Some p' \<Rightarrow> next_property_times n p')"

text \<open>
  The mutations that the end of \<open>applyNextModeOrValue\<close> can issue: none, one mode
  other than Manual, or the value \<open>v0\<close> followed by the mode Manual.
\<close>

definition mutation_shape ::
  "varjo_CameraPropertyType \<Rightarrow> varjo_CameraPropertyValue \<Rightarrow> event list \<Rightarrow> bool" where
  "mutation_shape t v0 evs \<longleftrightarrow>
     filter is_mutation evs = [] \<or>
     (\<exists>m. m \<noteq> varjo_CameraPropertyMode_Manual \<and>
          filter is_mutation evs = [Call (MRSetCameraPropertyMode t m)]) \<or>
     filter is_mutation evs =
       [Call (MRSetCameraPropertyValue t v0),
        Call (MRSetCameraPropertyMode t varjo_CameraPropertyMode_Manual)]"

section \<open>Unfolding the runtime calls\<close>

lemmas dev_defs = varjo_Lock_def varjo_Unlock_def guarded_def varjo_GetError_def
  varjo_MRGetCameraPropertyMode_def varjo_MRGetCameraPropertyValue_def
  varjo_MRGetCameraPropertyModeCount_def varjo_MRGetCameraPropertyModes_def
  varjo_MRGetCameraPropertyConfigType_def varjo_MRGetCameraPropertyValueCount_def
  varjo_MRGetCameraPropertyValues_def varjo_MRSetCameraPropertyMode_def
  varjo_MRSetCameraPropertyValue_def varjo_MRResetCameraProperties_def CHECK_VARJO_ERR_def
  varjo_MRSetChromaKey_def varjo_MRSetChromaKeyConfig_def
  emit_def log_def

section \<open>What each call leaves in the session\<close>

lemma log_fields [simp]:
  "calls (log l msg s) = calls s @ [Log l msg]"
  "camera (log l msg s) = camera s"
  "lockHolder (log l msg s) = lockHolder s"
  "faults (log l msg s) = faults s"
  "lastError (log l msg s) = lastError s"
  by (simp_all add: log_def emit_def)

lemma CHECK_VARJO_ERR_fields [simp]:
  "fst (CHECK_VARJO_ERR s) = lastError s"
  "calls (snd (CHECK_VARJO_ERR s)) = calls s @ Call GetError # errlog (lastError s)"
  "camera (snd (CHECK_VARJO_ERR s)) = camera s"
  "lockHolder (snd (CHECK_VARJO_ERR s)) = lockHolder s"
  "faults (snd (CHECK_VARJO_ERR s)) = faults s"
  "lastError (snd (CHECK_VARJO_ERR s)) = varjo_NoError"
  by (simp_all add: CHECK_VARJO_ERR_def varjo_GetError_def log_def emit_def errlog_def)

lemma varjo_Lock_fields [simp]:
  "fst (varjo_Lock lt s) = (lockHolder s lt = Unheld)"
  "calls (snd (varjo_Lock lt s)) = calls s @ [LockCall lt (lockHolder s lt = Unheld)]"
  "camera (snd (varjo_Lock lt s)) = camera s"
  "faults (snd (varjo_Lock lt s)) = faults s"
  "lockHolder (snd (varjo_Lock lt s)) =
     (if lockHolder s lt = Unheld then (lockHolder s)(lt := HeldBySelf) else lockHolder s)"
  by (simp_all add: varjo_Lock_def emit_def)

lemma varjo_Unlock_fields [simp]:
  "calls (varjo_Unlock lt s) = calls s @ [Call (Unlock lt)]"
  "camera (varjo_Unlock lt s) = camera s"
  "faults (varjo_Unlock lt s) = faults s"
  "lockHolder (varjo_Unlock lt s) =
     (if accepted (Unlock lt) (Some lt) s then (lockHolder s)(lt := Unheld) else lockHolder s)"
  "lastError (varjo_Unlock lt s) = refusal (Unlock lt) (Some lt) s"
  by (simp_all add: varjo_Unlock_def guarded_def emit_def accepted_def refusal_def Let_def)

lemma varjo_MRSetCameraPropertyMode_fields [simp]:
  "calls (varjo_MRSetCameraPropertyMode t m s) = calls s @ [Call (MRSetCameraPropertyMode t m)]"
  "camera (varjo_MRSetCameraPropertyMode t m s) =
     (if accepted (MRSetCameraPropertyMode t m) (Some varjo_LockType_Camera) s
      then (camera s)(t := (camera s t)\<lparr>prop_mode := m\<rparr>) else camera s)"
  "faults (varjo_MRSetCameraPropertyMode t m s) = faults s"
  "lockHolder (varjo_MRSetCameraPropertyMode t m s) = lockHolder s"
  "lastError (varjo_MRSetCameraPropertyMode t m s) =
     refusal (MRSetCameraPropertyMode t m) (Some varjo_LockType_Camera) s"
  by (simp_all add: varjo_MRSetCameraPropertyMode_def guarded_def emit_def accepted_def
      refusal_def Let_def)

lemma varjo_MRSetCameraPropertyValue_fields [simp]:
  "calls (varjo_MRSetCameraPropertyValue t v s) = calls s @ [Call (MRSetCameraPropertyValue t v)]"
  "camera (varjo_MRSetCameraPropertyValue t v s) =
     (if accepted (MRSetCameraPropertyValue t v) (Some varjo_LockType_Camera) s
      then (camera s)(t := (camera s t)\<lparr>prop_value := v\<rparr>) else camera s)"
  "faults (varjo_MRSetCameraPropertyValue t v s) = faults s"
  "lockHolder (varjo_MRSetCameraPropertyValue t v s) = lockHolder s"
  "lastError (varjo_MRSetCameraPropertyValue t v s) =
     refusal (MRSetCameraPropertyValue t v) (Some varjo_LockType_Camera) s"
  by (simp_all add: varjo_MRSetCameraPropertyValue_def guarded_def emit_def accepted_def
      refusal_def Let_def)

lemma varjo_MRResetCameraProperties_fields [simp]:
  "calls (varjo_MRResetCameraProperties s) = calls s @ [Call MRResetCameraProperties]"
  "faults (varjo_MRResetCameraProperties s) = faults s"
  "lockHolder (varjo_MRResetCameraProperties s) = lockHolder s"
  by (simp_all add: varjo_MRResetCameraProperties_def guarded_def emit_def Let_def)

lemma varjo_MRGetCameraPropertyMode_fields [simp]:
  "fst (varjo_MRGetCameraPropertyMode t s) = prop_mode (camera s t)"
  "calls (snd (varjo_MRGetCameraPropertyMode t s)) = calls s @ [Call (MRGetCameraPropertyMode t)]"
  "camera (snd (varjo_MRGetCameraPropertyMode t s)) = camera s"
  "faults (snd (varjo_MRGetCameraPropertyMode t s)) = faults s"
  "lockHolder (snd (varjo_MRGetCameraPropertyMode t s)) = lockHolder s"
  "lastError (snd (varjo_MRGetCameraPropertyMode t s)) = lastError s"
  by (simp_all add: varjo_MRGetCameraPropertyMode_def emit_def)

lemma varjo_MRGetCameraPropertyValue_fields [simp]:
  "fst (varjo_MRGetCameraPropertyValue t s) = prop_value (camera s t)"
  "calls (snd (varjo_MRGetCameraPropertyValue t s)) = calls s @ [Call (MRGetCameraPropertyValue t)]"
  "camera (snd (varjo_MRGetCameraPropertyValue t s)) = camera s"
  "faults (snd (varjo_MRGetCameraPropertyValue t s)) = faults s"
  "lockHolder (snd (varjo_MRGetCameraPropertyValue t s)) = lockHolder s"
  "lastError (snd (varjo_MRGetCameraPropertyValue t s)) = lastError s"
  by (simp_all add: varjo_MRGetCameraPropertyValue_def emit_def)

lemma getPropertyModeList_fields [simp]:
  "fst (getPropertyModeList t s) = prop_modes (camera s t)"
  "calls (snd (getPropertyModeList t s)) =
     calls s @ Call (MRGetCameraPropertyModeCount t) # Call (MRGetCameraPropertyModes t) #
       Call GetError # errlog (lastError s)"
  "camera (snd (getPropertyModeList t s)) = camera s"
  "faults (snd (getPropertyModeList t s)) = faults s"
  "lockHolder (snd (getPropertyModeList t s)) = lockHolder s"
  "lastError (snd (getPropertyModeList t s)) = varjo_NoError"
  by (simp_all add: getPropertyModeList_def varjo_MRGetCameraPropertyModeCount_def
      varjo_MRGetCameraPropertyModes_def emit_def Let_def split_beta)

lemma getPropertyValueList_fields [simp]:
  "fst (getPropertyValueList t s) = listed_values (camera s t)"
  "calls (snd (getPropertyValueList t s)) =
     calls s @ Call (MRGetCameraPropertyConfigType t) # Call GetError # errlog (lastError s) @
       (if prop_configType (camera s t) = varjo_CameraPropertyConfigType_List
        then [Call (MRGetCameraPropertyValueCount t), Call (MRGetCameraPropertyValues t),
              Call GetError]
        else [Log LOGE ''Expected a property list.''])"
  "camera (snd (getPropertyValueList t s)) = camera s"
  "faults (snd (getPropertyValueList t s)) = faults s"
  "lockHolder (snd (getPropertyValueList t s)) = lockHolder s"
  "lastError (snd (getPropertyValueList t s)) = varjo_NoError"
  by (simp_all add: getPropertyValueList_def varjo_MRGetCameraPropertyConfigType_def
      varjo_MRGetCameraPropertyValueCount_def listed_values_def
      varjo_MRGetCameraPropertyValues_def emit_def Let_def split_beta errlog_def)

lemma unlockCamera_fields [simp]:
  "calls (unlockCamera s) =
     calls s @ Call (Unlock varjo_LockType_Camera) # Call GetError #
       errlog (refusal (Unlock varjo_LockType_Camera) (Some varjo_LockType_Camera) s)"
  "camera (unlockCamera s) = camera s"
  "faults (unlockCamera s) = faults s"
  "lockHolder (unlockCamera s) =
     (if accepted (Unlock varjo_LockType_Camera) (Some varjo_LockType_Camera) s
      then (lockHolder s)(varjo_LockType_Camera := Unheld) else lockHolder s)"
  "lastError (unlockCamera s) = varjo_NoError"
  by (simp_all add: unlockCamera_def)

lemma errlog_filter [simp]:
  "\<not> P (Log LOGE ''Varjo error'') \<Longrightarrow> filter P (errlog e) = []"
  by (simp add: errlog_def)

lemma moduloIndex_small: "0 \<le> i \<Longrightarrow> i < int n \<Longrightarrow> n < 2 ^ 31 \<Longrightarrow> moduloIndex i n = nat i"
proof -
  assume a: "0 \<le> i" "i < int n" "n < 2 ^ 31"
  have "int n < 2 ^ 64" using a(3) by simp
  then have "i mod 2 ^ 64 = i" using a by simp
  then show ?thesis using a by (simp add: moduloIndex_def)
qed

lemma moduloIndex_zero [simp]: "moduloIndex 0 n = 0"
  by (simp add: moduloIndex_def)

lemma moduloIndex_less: "0 < n \<Longrightarrow> moduloIndex i n < n"
  by (simp add: moduloIndex_def)

text \<open>
  What the two setters and \<open>applyNextModeOrValue\<close> return, path by path, as the calls
  made on that path.
\<close>

lemma setPropertyValueToModuloIndex_empty:
  "listed_values (camera s t) = [] \<Longrightarrow> setPropertyValueToModuloIndex t i s = Inl ModuloByZero"
  by (simp add: setPropertyValueToModuloIndex_def Let_def split_beta)

lemma setPropertyValueToModuloIndex_Inr:
  "listed_values (camera s t) \<noteq> [] \<Longrightarrow>
   setPropertyValueToModuloIndex t i s =
     Inr (snd (CHECK_VARJO_ERR (varjo_MRSetCameraPropertyValue t
       (listed_values (camera s t) ! moduloIndex i (length (listed_values (camera s t))))
       (log LOGI ''Setting the camera property manual value to: %s''
          (snd (getPropertyValueList t s))))))"
  by (simp add: setPropertyValueToModuloIndex_def Let_def split_beta)

lemma setPropertyModeToModuloIndex_empty:
  "prop_modes (camera s t) = [] \<Longrightarrow> setPropertyModeToModuloIndex t i s = Inl ModuloByZero"
  by (simp add: setPropertyModeToModuloIndex_def Let_def split_beta)

lemma setPropertyModeToModuloIndex_other:
  "prop_modes (camera s t) \<noteq> [] \<Longrightarrow>
   prop_modes (camera s t) ! moduloIndex i (length (prop_modes (camera s t))) = m \<Longrightarrow>
   m \<noteq> varjo_CameraPropertyMode_Manual \<Longrightarrow>
   setPropertyModeToModuloIndex t i s =
     Inr (snd (CHECK_VARJO_ERR (varjo_MRSetCameraPropertyMode t m
       (log LOGI ''Setting the camera property mode to: %s'' (snd (getPropertyModeList t s))))))"
  by (simp add: setPropertyModeToModuloIndex_def Let_def split_beta)

lemma setPropertyModeToModuloIndex_Manual_empty:
  "prop_modes (camera s t) \<noteq> [] \<Longrightarrow>
   prop_modes (camera s t) ! moduloIndex i (length (prop_modes (camera s t)))
     = varjo_CameraPropertyMode_Manual \<Longrightarrow>
   listed_values (camera s t) = [] \<Longrightarrow>
   setPropertyModeToModuloIndex t i s = Inl ModuloByZero"
  by (simp add: setPropertyModeToModuloIndex_def Let_def split_beta
      setPropertyValueToModuloIndex_empty)

lemma setPropertyModeToModuloIndex_Manual:
  "prop_modes (camera s t) \<noteq> [] \<Longrightarrow>
   prop_modes (camera s t) ! moduloIndex i (length (prop_modes (camera s t)))
     = varjo_CameraPropertyMode_Manual \<Longrightarrow>
   listed_values (camera s t) \<noteq> [] \<Longrightarrow>
   setPropertyModeToModuloIndex t i s =
     Inr (snd (CHECK_VARJO_ERR (varjo_MRSetCameraPropertyMode t varjo_CameraPropertyMode_Manual
       (snd (CHECK_VARJO_ERR (varjo_MRSetCameraPropertyValue t (listed_values (camera s t) ! 0)
          (log LOGI ''Setting the camera property manual value to: %s''
            (snd (getPropertyValueList t
               (log LOGI ''Setting the camera property mode to: %s''
                  (snd (getPropertyModeList t s))))))))))))"
  by (simp add: setPropertyModeToModuloIndex_def Let_def split_beta
      setPropertyValueToModuloIndex_Inr)

lemma applyNextMode_notfound:
  "findPropertyModeIndex cm modes = -1 \<Longrightarrow>
   applyNextMode t cm modes x = Inr (unlockCamera (log LOGE ''Error finding current mode: %d'' x))"
  by (simp add: applyNextMode_def)

lemma applyNextMode_found:
  "findPropertyModeIndex cm modes \<noteq> -1 \<Longrightarrow>
   applyNextMode t cm modes x =
     (case setPropertyModeToModuloIndex t (findPropertyModeIndex cm modes + 1) x of
        Inl f \<Rightarrow> Inl f | Inr s1 \<Rightarrow> Inr (unlockCamera s1))"
  by (simp add: applyNextMode_def)

lemma applyNextModeOrValue_denied:
  "lockHolder s varjo_LockType_Camera \<noteq> Unheld \<Longrightarrow>
   applyNextModeOrValue t s =
     Inr (log LOGE ''Could not change mixed reality camera settings.'' (afterLock s))"
  by (simp add: applyNextModeOrValue_def afterLock_def Let_def split_beta)

lemma applyNextModeOrValue_other:
  "lockHolder s varjo_LockType_Camera = Unheld \<Longrightarrow>
   prop_mode (camera s t) \<noteq> varjo_CameraPropertyMode_Manual \<Longrightarrow>
   applyNextModeOrValue t s =
     applyNextMode t (prop_mode (camera s t)) (prop_modes (camera s t)) (afterModes t s)"
  by (simp add: applyNextModeOrValue_def afterLock_def afterModes_def Let_def split_beta)

lemma applyNextModeOrValue_lost:
  "lockHolder s varjo_LockType_Camera = Unheld \<Longrightarrow>
   prop_mode (camera s t) = varjo_CameraPropertyMode_Manual \<Longrightarrow>
   findPropertyValueIndex (prop_value (camera s t)) (listed_values (camera s t)) = -1 \<Longrightarrow>
   applyNextModeOrValue t s =
     Inr (unlockCamera (log LOGE ''Error finding current value: %d'' (afterValues t s)))"
  by (simp add: applyNextModeOrValue_def afterLock_def afterModes_def afterValues_def Let_def
      split_beta)

lemma applyNextModeOrValue_next_value:
  "lockHolder s varjo_LockType_Camera = Unheld \<Longrightarrow>
   prop_mode (camera s t) = varjo_CameraPropertyMode_Manual \<Longrightarrow>
   findPropertyValueIndex (prop_value (camera s t)) (listed_values (camera s t)) = i \<Longrightarrow>
   i \<noteq> -1 \<Longrightarrow> i + 1 < int (length (listed_values (camera s t))) \<Longrightarrow>
   applyNextModeOrValue t s =
     (case setPropertyValueToModuloIndex t (i + 1) (afterValues t s) of
        Inl f \<Rightarrow> Inl f | Inr s7 \<Rightarrow> Inr (unlockCamera s7))"
  by (simp add: applyNextModeOrValue_def afterLock_def afterModes_def afterValues_def Let_def
      split_beta)

lemma applyNextModeOrValue_last_value:
  "lockHolder s varjo_LockType_Camera = Unheld \<Longrightarrow>
   prop_mode (camera s t) = varjo_CameraPropertyMode_Manual \<Longrightarrow>
   findPropertyValueIndex (prop_value (camera s t)) (listed_values (camera s t)) = i \<Longrightarrow>
   i \<noteq> -1 \<Longrightarrow> \<not> i + 1 < int (length (listed_values (camera s t))) \<Longrightarrow>
   applyNextModeOrValue t s =
     applyNextMode t varjo_CameraPropertyMode_Manual (prop_modes (camera s t)) (afterValues t s)"
  by (simp add: applyNextModeOrValue_def afterLock_def afterModes_def afterValues_def Let_def
      split_beta)

lemma afterLock_fields [simp]:
  "calls (afterLock s) =
     calls s @ LockCall varjo_LockType_Camera (lockHolder s varjo_LockType_Camera = Unheld) #
       Call GetError # errlog (lastError (snd (varjo_Lock varjo_LockType_Camera s)))"
  "camera (afterLock s) = camera s"
  "faults (afterLock s) = faults s"
  "lockHolder (afterLock s) =
     (if lockHolder s varjo_LockType_Camera = Unheld
      then (lockHolder s)(varjo_LockType_Camera := HeldBySelf) else lockHolder s)"
  "lastError (afterLock s) = varjo_NoError"
  by (simp_all add: afterLock_def)

lemma afterModes_fields [simp]:
  "calls (afterModes t s) =
     calls (afterLock s) @ [Call (MRGetCameraPropertyMode t), Call (MRGetCameraPropertyModeCount t),
       Call (MRGetCameraPropertyModes t), Call GetError]"
  "camera (afterModes t s) = camera s"
  "faults (afterModes t s) = faults s"
  "lockHolder (afterModes t s) = lockHolder (afterLock s)"
  "lastError (afterModes t s) = varjo_NoError"
  by (simp_all add: afterModes_def errlog_def)

lemma afterValues_fields [simp]:
  "calls (afterValues t s) =
     calls (afterModes t s) @ Call (MRGetCameraPropertyValue t) #
       Call (MRGetCameraPropertyConfigType t) # Call GetError #
       (if prop_configType (camera s t) = varjo_CameraPropertyConfigType_List
        then [Call (MRGetCameraPropertyValueCount t), Call (MRGetCameraPropertyValues t),
              Call GetError]
        else [Log LOGE ''Expected a property list.''])"
  "camera (afterValues t s) = camera s"
  "faults (afterValues t s) = faults s"
  "lockHolder (afterValues t s) = lockHolder (afterLock s)"
  "lastError (afterValues t s) = varjo_NoError"
  by (simp_all add: afterValues_def errlog_def)

section \<open>Searching the value list\<close>

lemma findPropertyValueIndex_from_step:
  "findPropertyValueIndex_from i pv (e # vs) =
     (if payload_equal_as pv e then i else findPropertyValueIndex_from (i + 1) pv vs)"
  by (simp add: payload_equal_as_def split: varjo_CameraPropertyDataType.splits)

lemma findPropertyValueIndex_from_none:
  "0 \<le> i \<Longrightarrow>
     (findPropertyValueIndex_from i pv vs = -1) = (\<forall>e \<in> set vs. \<not> payload_equal_as pv e)"
proof (induction vs arbitrary: i)
  case Nil
  show ?case by simp
next
  case (Cons e vs)
  have "findPropertyValueIndex_from (i + 1) pv vs = -1 \<longleftrightarrow>
          (\<forall>e \<in> set vs. \<not> payload_equal_as pv e)"
    using Cons.IH[of "i + 1"] Cons.prems by simp
  then show ?case
    using Cons.prems by (simp only: findPropertyValueIndex_from_step) auto
qed

lemma findPropertyValueIndex_from_found:
  "findPropertyValueIndex_from i pv vs \<noteq> -1 \<Longrightarrow> 0 \<le> i \<Longrightarrow>
     i \<le> findPropertyValueIndex_from i pv vs \<and>
     findPropertyValueIndex_from i pv vs < i + int (length vs) \<and>
     payload_equal_as pv (vs ! nat (findPropertyValueIndex_from i pv vs - i)) \<and>
     (\<forall>j < nat (findPropertyValueIndex_from i pv vs - i). \<not> payload_equal_as pv (vs ! j))"
proof (induction vs arbitrary: i)
  case Nil
  then show ?case by simp
next
  case (Cons e vs)
  show ?case
  proof (cases "payload_equal_as pv e")
    case True
    then show ?thesis by (simp only: findPropertyValueIndex_from_step) simp
  next
    case False
    let ?r = "findPropertyValueIndex_from (i + 1) pv vs"
    have r: "findPropertyValueIndex_from i pv (e # vs) = ?r"
      using False by (simp only: findPropertyValueIndex_from_step) simp
    have ne: "?r \<noteq> -1"
      using Cons.prems(1) r by simp
    have ih: "i + 1 \<le> ?r \<and> ?r < i + 1 + int (length vs) \<and>
        payload_equal_as pv (vs ! nat (?r - (i + 1))) \<and>
        (\<forall>j < nat (?r - (i + 1)). \<not> payload_equal_as pv (vs ! j))"
      using Cons.IH[OF ne] Cons.prems(2) by simp
    have n: "nat (?r - i) = Suc (nat (?r - (i + 1)))"
      using ih by linarith
    have "\<forall>j < nat (?r - i). \<not> payload_equal_as pv ((e # vs) ! j)"
    proof (intro allI impI)
      fix j
      assume "j < nat (?r - i)"
      then show "\<not> payload_equal_as pv ((e # vs) ! j)"
        using ih False n by (cases j) auto
    qed
    then show ?thesis
      using ih n by (simp only: r) simp
  qed
qed

lemma findPropertyValueIndex_from_retag:
  "findPropertyValueIndex_from i pv (map (\<lambda>e. e\<lparr>type := t\<rparr>) vs) =
     findPropertyValueIndex_from i pv vs"
  by (induction vs arbitrary: i)
     (auto simp: boolValue_def intValue_def doubleValue_def
           split: varjo_CameraPropertyDataType.splits)

text \<open>
  C2 (as amended). \<open>findPropertyValueIndex\<close> chooses the comparison by the type tag of
  the searched value alone and reads the same union member of every entry: it returns
  the first index whose payload compares equal that way, and -1 exactly when no entry
  does (in particular when the searched tag is none of bool, int, double). The type
  tags of the entries are never read: giving all entries another tag leaves the result
  the same.
\<close>

theorem findPropertyValueIndex_payload_only:
  "(findPropertyValueIndex pv vs = -1 \<longleftrightarrow> (\<forall>e \<in> set vs. \<not> payload_equal_as pv e)) \<and>
   (findPropertyValueIndex pv vs \<noteq> -1 \<longrightarrow>
      0 \<le> findPropertyValueIndex pv vs \<and> findPropertyValueIndex pv vs < int (length vs) \<and>
      payload_equal_as pv (vs ! nat (findPropertyValueIndex pv vs)) \<and>
      (\<forall>j < nat (findPropertyValueIndex pv vs). \<not> payload_equal_as pv (vs ! j))) \<and>
   findPropertyValueIndex pv (map (\<lambda>e. e\<lparr>type := t\<rparr>) vs) = findPropertyValueIndex pv vs"
proof (intro conjI impI)
  show "findPropertyValueIndex pv vs = -1 \<longleftrightarrow> (\<forall>e \<in> set vs. \<not> payload_equal_as pv e)"
    unfolding findPropertyValueIndex_def by (rule findPropertyValueIndex_from_none) simp
next
  assume "findPropertyValueIndex pv vs \<noteq> -1"
  then have ne: "findPropertyValueIndex_from 0 pv vs \<noteq> -1"
    by (simp add: findPropertyValueIndex_def)
  note f = findPropertyValueIndex_from_found[OF ne]
  show "0 \<le> findPropertyValueIndex pv vs"
    using f by (simp add: findPropertyValueIndex_def)
  show "findPropertyValueIndex pv vs < int (length vs)"
    using f by (simp add: findPropertyValueIndex_def)
  show "payload_equal_as pv (vs ! nat (findPropertyValueIndex pv vs))"
    using f by (simp add: findPropertyValueIndex_def)
  show "\<forall>j < nat (findPropertyValueIndex pv vs). \<not> payload_equal_as pv (vs ! j)"
    using f by (simp add: findPropertyValueIndex_def)
next
  show "findPropertyValueIndex pv (map (\<lambda>e. e\<lparr>type := t\<rparr>) vs) = findPropertyValueIndex pv vs"
    by (simp add: findPropertyValueIndex_def findPropertyValueIndex_from_retag)
qed

theorem findPropertyValueIndex_payload_only_witness:
  "findPropertyValueIndex (int_value 200) [int_value 100, double_value 200, int_value 200] = 1 \<and>
   payload_equal_as (int_value 200) ([int_value 100, double_value 200, int_value 200] ! 1) \<and>
   \<not> payload_equal_as (int_value 200) ([int_value 100, double_value 200, int_value 200] ! 0) \<and>
   findPropertyValueIndex (int_value 200)
     (map (\<lambda>e. e\<lparr>type := varjo_CameraPropertyDataType_Bool\<rparr>)
        [int_value 100, double_value 200, int_value 200]) = 1"
proof -
  let ?vs = "[int_value 100, double_value 200, int_value 200]"
  have r: "findPropertyValueIndex (int_value 200) ?vs = 1"
    by (simp add: findPropertyValueIndex_def int_value_def double_value_def intValue_def)
  note t = findPropertyValueIndex_payload_only
    [of "int_value 200" ?vs varjo_CameraPropertyDataType_Bool]
  from t r have "payload_equal_as (int_value 200) (?vs ! nat 1)"
    by simp
  moreover from t r have "\<forall>j < nat 1. \<not> payload_equal_as (int_value 200) (?vs ! j)"
    by simp
  moreover from t r have "findPropertyValueIndex (int_value 200)
     (map (\<lambda>e. e\<lparr>type := varjo_CameraPropertyDataType_Bool\<rparr>) ?vs) = 1"
    by simp
  ultimately show ?thesis
    using r by simp
qed

text \<open>
  The claim as written fails: the double 1.0 has the bit pattern
  \<open>0x3FF0000000000000\<close>, and searched in a list whose only entry is the int with that
  payload it is found at index 0, although the two type tags differ.
\<close>

theorem findPropertyValueIndex_type_mismatch_counterexample:
  "type (double_value 0x3FF0000000000000) \<noteq> type (int_value 0x3FF0000000000000) \<and>
   findPropertyValueIndex (double_value 0x3FF0000000000000) [int_value 0x3FF0000000000000] = 0 \<and>
   findPropertyValueIndex (double_value 0x3FF0000000000000) [int_value 0x3FF0000000000000] \<noteq> -1"
  by (simp add: findPropertyValueIndex_def double_value_def int_value_def double_eq_def
      doubleValue_def double_isnan_def)

section \<open>The locking discipline of CameraManager\<close>


lemma setPropertyModeToModuloIndex_cases:
  "setPropertyModeToModuloIndex t i x = Inl ModuloByZero \<or>
   (\<exists>m. m \<noteq> varjo_CameraPropertyMode_Manual \<and> setPropertyModeToModuloIndex t i x =
     Inr (snd (CHECK_VARJO_ERR (varjo_MRSetCameraPropertyMode t m
       (log LOGI ''Setting the camera property mode to: %s'' (snd (getPropertyModeList t x))))))) \<or>
   (listed_values (camera x t) \<noteq> [] \<and> setPropertyModeToModuloIndex t i x =
     Inr (snd (CHECK_VARJO_ERR (varjo_MRSetCameraPropertyMode t varjo_CameraPropertyMode_Manual
       (snd (CHECK_VARJO_ERR (varjo_MRSetCameraPropertyValue t (listed_values (camera x t) ! 0)
          (log LOGI ''Setting the camera property manual value to: %s''
            (snd (getPropertyValueList t
               (log LOGI ''Setting the camera property mode to: %s''
                  (snd (getPropertyModeList t x)))))))))))))"
proof (cases "prop_modes (camera x t) = []")
  case True
  then show ?thesis by (simp add: setPropertyModeToModuloIndex_empty)
next
  case ne: False
  show ?thesis
  proof (cases "prop_modes (camera x t) ! moduloIndex i (length (prop_modes (camera x t)))
      = varjo_CameraPropertyMode_Manual")
    case False
    then show ?thesis using setPropertyModeToModuloIndex_other[OF ne refl False] by blast
  next
    case m: True
    show ?thesis
    proof (cases "listed_values (camera x t) = []")
      case True
      then show ?thesis using setPropertyModeToModuloIndex_Manual_empty[OF ne m True] by simp
    next
      case False
      then show ?thesis using setPropertyModeToModuloIndex_Manual[OF ne m False] by simp
    qed
  qed
qed











section \<open>One call of applyNextModeOrValue\<close>

lemma upd_same [simp]: "p\<lparr>prop_value := prop_value p\<rparr> = p" "p\<lparr>prop_mode := prop_mode p\<rparr> = p"
  by simp_all

lemma applyNextMode_step0:
  assumes held: "lockHolder x varjo_LockType_Camera = HeldBySelf"
    and nofault: "\<forall>c. faults x c = varjo_NoError"
  shows "case next_mode_property (camera x t) of
           None \<Rightarrow> applyNextMode t (prop_mode (camera x t)) (prop_modes (camera x t)) x
                     = Inl ModuloByZero
         | Some p' \<Rightarrow> \<exists>s'.
             applyNextMode t (prop_mode (camera x t)) (prop_modes (camera x t)) x = Inr s' \<and>
             camera s' = (camera x)(t := p') \<and>
             lockHolder s' = (lockHolder x)(varjo_LockType_Camera := Unheld) \<and>
             faults s' = faults x"
proof (cases "findPropertyModeIndex (prop_mode (camera x t)) (prop_modes (camera x t)) = -1")
  case True
  then show ?thesis
    using held nofault
    by (simp add: next_mode_property_def applyNextMode_notfound accepted_def)
next
  case found: False
  let ?k = "findPropertyModeIndex (prop_mode (camera x t)) (prop_modes (camera x t))"
  show ?thesis
  proof (cases "prop_modes (camera x t) = []")
    case True
    then show ?thesis using found
      by (simp add: next_mode_property_def applyNextMode_found setPropertyModeToModuloIndex_empty)
  next
    case ne: False
    let ?m = "prop_modes (camera x t) ! moduloIndex (?k + 1) (length (prop_modes (camera x t)))"
    show ?thesis
    proof (cases "?m = varjo_CameraPropertyMode_Manual")
      case False
      show ?thesis
        using found ne False held nofault
        by (simp add: next_mode_property_def applyNextMode_found Let_def
            setPropertyModeToModuloIndex_other[OF ne refl False] accepted_def)
    next
      case m: True
      show ?thesis
      proof (cases "listed_values (camera x t) = []")
        case True
        then show ?thesis using found ne m
          by (simp add: next_mode_property_def applyNextMode_found Let_def
              setPropertyModeToModuloIndex_Manual_empty[OF ne m True])
      next
        case False
        then show ?thesis using found ne m held nofault
          by (simp add: next_mode_property_def applyNextMode_found Let_def
              setPropertyModeToModuloIndex_Manual[OF ne m False] accepted_def)
      qed
    qed
  qed
qed

lemma applyNextMode_step:
  assumes "lockHolder x varjo_LockType_Camera = HeldBySelf"
    and "\<forall>c. faults x c = varjo_NoError"
    and "cm = prop_mode (camera x t)" and "modes = prop_modes (camera x t)"
  shows "case next_mode_property (camera x t) of
           None \<Rightarrow> applyNextMode t cm modes x = Inl ModuloByZero
         | Some p' \<Rightarrow> \<exists>s'. applyNextMode t cm modes x = Inr s' \<and>
             camera s' = (camera x)(t := p') \<and>
             lockHolder s' = (lockHolder x)(varjo_LockType_Camera := Unheld) \<and>
             faults s' = faults x"
  unfolding assms(3,4) using assms(1,2) by (rule applyNextMode_step0)

lemma applyNextModeOrValue_step:
  assumes w: "willing s"
  shows "case next_property (camera s t) of
           None \<Rightarrow> applyNextModeOrValue t s = Inl ModuloByZero
         | Some p' \<Rightarrow> \<exists>s'. applyNextModeOrValue t s = Inr s' \<and>
             camera s' = (camera s)(t := p') \<and> willing s'"
proof -
  have granted: "lockHolder s varjo_LockType_Camera = Unheld"
    and nofault: "\<forall>c. faults s c = varjo_NoError"
    using w by (simp_all add: willing_def)
  have relock: "(lockHolder s)(varjo_LockType_Camera := Unheld) = lockHolder s"
    using granted by auto
  let ?i = "findPropertyValueIndex (prop_value (camera s t)) (listed_values (camera s t))"
  show ?thesis
  proof (cases "prop_mode (camera s t) = varjo_CameraPropertyMode_Manual")
    case False
    have "case next_mode_property (camera (afterModes t s) t) of
           None \<Rightarrow> applyNextMode t (prop_mode (camera s t)) (prop_modes (camera s t))
                     (afterModes t s) = Inl ModuloByZero
         | Some p' \<Rightarrow> \<exists>s'. applyNextMode t (prop_mode (camera s t)) (prop_modes (camera s t))
                     (afterModes t s) = Inr s' \<and>
             camera s' = (camera (afterModes t s))(t := p') \<and>
             lockHolder s' = (lockHolder (afterModes t s))(varjo_LockType_Camera := Unheld) \<and>
             faults s' = faults (afterModes t s)"
      by (rule applyNextMode_step) (simp_all add: granted nofault)
    then show ?thesis
      using False granted nofault relock
      by (auto simp: next_property_def applyNextModeOrValue_other willing_def
          split: option.splits)
  next
    case manual: True
    show ?thesis
    proof (cases "?i = -1")
      case True
      then show ?thesis
        using manual granted nofault relock
        by (simp add: next_property_def applyNextModeOrValue_lost willing_def accepted_def)
    next
      case found: False
      show ?thesis
      proof (cases "?i + 1 < int (length (listed_values (camera s t)))")
        case True
        then have ne: "listed_values (camera (afterValues t s) t) \<noteq> []"
          by (auto simp: findPropertyValueIndex_def)
        show ?thesis
          using manual granted nofault relock found True
          by (simp add: next_property_def applyNextModeOrValue_next_value Let_def
              setPropertyValueToModuloIndex_Inr[OF ne] willing_def accepted_def)
      next
        case False
        have "case next_mode_property (camera (afterValues t s) t) of
           None \<Rightarrow> applyNextMode t varjo_CameraPropertyMode_Manual (prop_modes (camera s t))
                     (afterValues t s) = Inl ModuloByZero
         | Some p' \<Rightarrow> \<exists>s'. applyNextMode t varjo_CameraPropertyMode_Manual (prop_modes (camera s t))
                     (afterValues t s) = Inr s' \<and>
             camera s' = (camera (afterValues t s))(t := p') \<and>
             lockHolder s' = (lockHolder (afterValues t s))(varjo_LockType_Camera := Unheld) \<and>
             faults s' = faults (afterValues t s)"
          by (rule applyNextMode_step) (simp_all add: granted nofault manual)
        then show ?thesis
          using manual granted nofault relock found False
          by (auto simp: next_property_def applyNextModeOrValue_last_value willing_def Let_def
              split: option.splits)
      qed
    qed
  qed
qed

section \<open>Repeated calls and the scenario\<close>

lemma advance_times_step:
  "willing s \<Longrightarrow>
   (case next_property_times n (camera s t) of
      None \<Rightarrow> advance_times n t s = Inl ModuloByZero
    | Some p' \<Rightarrow> \<exists>s'. advance_times n t s = Inr s' \<and> camera s' = (camera s)(t := p') \<and>
        willing s')"
proof (induction n arbitrary: s)
  case 0
  then show ?case by simp
next
  case (Suc n)
  note step = applyNextModeOrValue_step[OF Suc.prems, of t]
  show ?case
  proof (cases "next_property (camera s t)")
    case None
    then show ?thesis using step by simp
  next
    case (Some p1)
    then obtain s1 where s1: "applyNextModeOrValue t s = Inr s1"
      "camera s1 = (camera s)(t := p1)" "willing s1"
      using step by auto
    have "camera s1 t = p1" using s1(2) by simp
    then show ?thesis
      using Suc.IH[OF s1(3)] s1 Some by (auto split: option.splits)
  qed
qed

lemma scenario_willing: "willing scenario"
  by (simp add: willing_def scenario_def session_of_def)

lemma scenario_camera: "camera scenario t = scenario_property"
  by (simp add: scenario_def session_of_def)

lemmas property_eval = next_property_def next_mode_property_def listed_values_def
  findPropertyValueIndex_def findPropertyModeIndex_def moduloIndex_def intValue_def
  int_value_def scenario_property_def Let_def

lemma scenario_steps:
  "next_property scenario_property
     = Some (scenario_property\<lparr>prop_mode := varjo_CameraPropertyMode_Off\<rparr>)"
  "next_property (scenario_property\<lparr>prop_mode := varjo_CameraPropertyMode_Off\<rparr>)
     = Some (scenario_property\<lparr>prop_mode := varjo_CameraPropertyMode_Auto\<rparr>)"
  "next_property (scenario_property\<lparr>prop_mode := varjo_CameraPropertyMode_Auto\<rparr>)
     = Some (scenario_property\<lparr>prop_value := int_value 100\<rparr>)"
  "next_property (scenario_property\<lparr>prop_value := int_value 100\<rparr>)
     = Some scenario_property"
  by (simp_all add: property_eval)

lemma three: "(3::nat) = Suc (Suc (Suc 0))" and two: "(2::nat) = Suc (Suc 0)"
  and six: "(6::nat) = Suc (Suc (Suc (Suc (Suc (Suc 0)))))"
  by simp_all

lemma scenario_times:
  "next_property_times 1 scenario_property
     = Some (scenario_property\<lparr>prop_mode := varjo_CameraPropertyMode_Off\<rparr>)"
  "next_property_times 2 scenario_property
     = Some (scenario_property\<lparr>prop_mode := varjo_CameraPropertyMode_Auto\<rparr>)"
  "next_property_times 3 scenario_property
     = Some (scenario_property\<lparr>prop_value := int_value 100\<rparr>)"
  "next_property_times 6 scenario_property
     = Some (scenario_property\<lparr>prop_mode := varjo_CameraPropertyMode_Auto\<rparr>)"
  unfolding two three six One_nat_def by (simp_all add: scenario_steps)

lemma scenario_after:
  assumes "next_property_times n scenario_property = Some p'"
  shows "current_pair t (advance_times n t scenario) = Some (prop_mode p', prop_value p')"
proof -
  from advance_times_step[OF scenario_willing, of n t] assms
  obtain s' where "advance_times n t scenario = Inr s'" "camera s' = (camera scenario)(t := p')"
    by (auto simp: scenario_camera)
  then show ?thesis by (simp add: current_pair_def)
qed

text \<open>
  C3 (as amended). In the scenario (modes Off, Auto, Manual; values 100 and 200;
  current state Manual at 200) the value index 1 is the last, so one call of
  \<open>applyNextModeOrValue\<close> leaves the values alone and sets the mode after Manual in the
  mode list, which wraps to index 0: Off. The second call sets Auto, and the third
  call, from Auto, sets Manual with the manual value preset to \<open>values[0] = 100\<close>.
\<close>

theorem scenario_wraps_to_Off:
  "current_pair varjo_CameraPropertyType_ExposureTime
     (advance_times 1 varjo_CameraPropertyType_ExposureTime scenario)
     = Some (varjo_CameraPropertyMode_Off, int_value 200) \<and>
   current_pair varjo_CameraPropertyType_ExposureTime
     (advance_times 2 varjo_CameraPropertyType_ExposureTime scenario)
     = Some (varjo_CameraPropertyMode_Auto, int_value 200) \<and>
   current_pair varjo_CameraPropertyType_ExposureTime
     (advance_times 3 varjo_CameraPropertyType_ExposureTime scenario)
     = Some (varjo_CameraPropertyMode_Manual, int_value 100)"
  using scenario_after[OF scenario_times(1)] scenario_after[OF scenario_times(2)]
    scenario_after[OF scenario_times(3)]
  by (simp add: scenario_property_def)

text \<open>
  The scenario as the specification tells it fails at its first step: the mode after
  the first call is not Auto.
\<close>

theorem scenario_not_Auto_counterexample:
  "map_option fst (current_pair varjo_CameraPropertyType_ExposureTime
     (applyNextModeOrValue varjo_CameraPropertyType_ExposureTime scenario))
   \<noteq> Some varjo_CameraPropertyMode_Auto"
proof -
  have "advance_times 1 varjo_CameraPropertyType_ExposureTime scenario
      = applyNextModeOrValue varjo_CameraPropertyType_ExposureTime scenario"
    by (simp split: sum.splits)
  then show ?thesis
    using scenario_after[OF scenario_times(1), of varjo_CameraPropertyType_ExposureTime]
    by (simp add: scenario_property_def)
qed


section \<open>The mutations of one call\<close>

lemma shapeI:
  "calls s' = calls x @ evs \<Longrightarrow> mutation_shape t v0 evs \<Longrightarrow>
   \<exists>evs. calls s' = calls x @ evs \<and> mutation_shape t v0 evs"
  by blast

lemma applyNextMode_mutations:
  assumes "applyNextMode t cm modes x = Inr s'"
  shows "\<exists>evs. calls s' = calls x @ evs \<and> mutation_shape t (listed_values (camera x t) ! 0) evs"
proof (cases "findPropertyModeIndex cm modes = -1")
  case True
  then have "s' = unlockCamera (log LOGE ''Error finding current mode: %d'' x)"
    using assms by (simp add: applyNextMode_notfound)
  then show ?thesis by - (rule shapeI, simp, simp add: mutation_shape_def)
next
  case False
  from assms applyNextMode_found[OF False, of t x]
  obtain x' where x': "setPropertyModeToModuloIndex t (findPropertyModeIndex cm modes + 1) x = Inr x'"
    and s': "s' = unlockCamera x'"
    by (auto split: sum.splits)
  from setPropertyModeToModuloIndex_cases[of t "findPropertyModeIndex cm modes + 1" x] x'
  consider (other) m where "m \<noteq> varjo_CameraPropertyMode_Manual"
      "x' = snd (CHECK_VARJO_ERR (varjo_MRSetCameraPropertyMode t m
       (log LOGI ''Setting the camera property mode to: %s'' (snd (getPropertyModeList t x)))))"
    | (manual) "x' = snd (CHECK_VARJO_ERR (varjo_MRSetCameraPropertyMode t varjo_CameraPropertyMode_Manual
       (snd (CHECK_VARJO_ERR (varjo_MRSetCameraPropertyValue t (listed_values (camera x t) ! 0)
          (log LOGI ''Setting the camera property manual value to: %s''
            (snd (getPropertyValueList t
               (log LOGI ''Setting the camera property mode to: %s''
                  (snd (getPropertyModeList t x)))))))))))"
    by auto
  then show ?thesis
  proof cases
    case other
    show ?thesis unfolding s' other(2)
      by (rule shapeI) (simp, simp add: mutation_shape_def other(1))
  next
    case manual
    show ?thesis unfolding s' manual
      by (rule shapeI) (simp, simp add: mutation_shape_def)
  qed
qed

lemma shape_after:
  assumes "calls x = calls s @ pre" and "filter is_mutation pre = []"
    and "\<exists>evs. calls s' = calls x @ evs \<and> mutation_shape t v0 evs"
  shows "\<exists>evs. calls s' = calls s @ evs \<and> mutation_shape t v0 evs"
proof -
  from assms(3) obtain evs where e: "calls s' = calls x @ evs" "mutation_shape t v0 evs"
    by blast
  have "mutation_shape t v0 (pre @ evs)"
    using e(2) assms(2) by (simp add: mutation_shape_def)
  moreover have "calls s' = calls s @ (pre @ evs)"
    using e(1) assms(1) by simp
  ultimately show ?thesis by blast
qed

lemma applyNextModeOrValue_mutations:
  assumes r: "applyNextModeOrValue t s = Inr s'"
  shows "\<exists>evs. calls s' = calls s @ evs \<and>
           (mutation_shape t (listed_values (camera s t) ! 0) evs \<or>
            (\<exists>v. filter is_mutation evs = [Call (MRSetCameraPropertyValue t v)]))"
proof (cases "lockHolder s varjo_LockType_Camera = Unheld")
  case False
  then have "s' = log LOGE ''Could not change mixed reality camera settings.'' (afterLock s)"
    using r by (simp add: applyNextModeOrValue_denied)
  then have "calls s' = calls s @ new_events s s' \<and> filter is_mutation (new_events s s') = []"
    by (simp add: new_events_def)
  then show ?thesis unfolding mutation_shape_def by blast
next
  case granted: True
  have "\<exists>pre. calls (afterModes t s) = calls s @ pre \<and> filter is_mutation pre = []"
    by (intro exI conjI) (simp, simp)
  then obtain pm where pm: "calls (afterModes t s) = calls s @ pm" "filter is_mutation pm = []"
    by blast
  have "\<exists>pre. calls (afterValues t s) = calls s @ pre \<and> filter is_mutation pre = []"
    by (intro exI conjI) (simp, simp)
  then obtain pv where pv: "calls (afterValues t s) = calls s @ pv" "filter is_mutation pv = []"
    by blast
  let ?i = "findPropertyValueIndex (prop_value (camera s t)) (listed_values (camera s t))"
  show ?thesis
  proof (cases "prop_mode (camera s t) = varjo_CameraPropertyMode_Manual")
    case False
    then have "applyNextMode t (prop_mode (camera s t)) (prop_modes (camera s t))
        (afterModes t s) = Inr s'"
      using r applyNextModeOrValue_other[OF granted False] by simp
    from applyNextMode_mutations[OF this]
    have "\<exists>evs. calls s' = calls s @ evs \<and>
        mutation_shape t (listed_values (camera (afterModes t s) t) ! 0) evs"
      by (rule shape_after[OF pm])
    then show ?thesis by auto
  next
    case manual: True
    show ?thesis
    proof (cases "?i = -1")
      case True
      then have "s' = unlockCamera (log LOGE ''Error finding current value: %d'' (afterValues t s))"
        using r applyNextModeOrValue_lost[OF granted manual True] by simp
      then have "calls s' = calls s @ new_events s s' \<and> filter is_mutation (new_events s s') = []"
        by (simp add: new_events_def)
      then show ?thesis unfolding mutation_shape_def by blast
    next
      case found: False
      show ?thesis
      proof (cases "?i + 1 < int (length (listed_values (camera s t)))")
        case True
        then have ne: "listed_values (camera (afterValues t s) t) \<noteq> []"
          by (auto simp: findPropertyValueIndex_def)
        have "s' = unlockCamera (projr (setPropertyValueToModuloIndex t (?i + 1) (afterValues t s)))"
          using r applyNextModeOrValue_next_value[OF granted manual refl found True]
          by (simp add: setPropertyValueToModuloIndex_Inr[OF ne])
        then have "calls s' = calls s @ new_events s s' \<and>
            (\<exists>v. filter is_mutation (new_events s s') = [Call (MRSetCameraPropertyValue t v)])"
          by (simp add: new_events_def setPropertyValueToModuloIndex_Inr[OF ne])
        then show ?thesis by blast
      next
        case False
        then have "applyNextMode t varjo_CameraPropertyMode_Manual (prop_modes (camera s t))
            (afterValues t s) = Inr s'"
          using r applyNextModeOrValue_last_value[OF granted manual refl found False] by simp
        from applyNextMode_mutations[OF this]
        have "\<exists>evs. calls s' = calls s @ evs \<and>
            mutation_shape t (listed_values (camera (afterValues t s) t) ! 0) evs"
          by (rule shape_after[OF pv])
        then show ?thesis by auto
      qed
    qed
  qed
qed

text \<open>
  C6. Whenever a call of \<open>applyNextModeOrValue\<close> that returns sets the mode to Manual,
  the mutations it issues are exactly two, in this order: first the manual value at
  index 0 of the fetched value list, then the mode Manual.
\<close>

theorem manual_value_before_mode:
  assumes "applyNextModeOrValue t s = Inr s'"
    and "Call (MRSetCameraPropertyMode t varjo_CameraPropertyMode_Manual) \<in> set (new_events s s')"
  shows "filter is_mutation (new_events s s') =
           [Call (MRSetCameraPropertyValue t (listed_values (camera s t) ! 0)),
            Call (MRSetCameraPropertyMode t varjo_CameraPropertyMode_Manual)]"
proof -
  from applyNextModeOrValue_mutations[OF assms(1)] obtain evs
    where e: "calls s' = calls s @ evs"
      and sh: "mutation_shape t (listed_values (camera s t) ! 0) evs \<or>
            (\<exists>v. filter is_mutation evs = [Call (MRSetCameraPropertyValue t v)])"
    by blast
  have n: "new_events s s' = evs"
    using e by (simp add: new_events_def)
  define ms where "ms = filter is_mutation evs"
  have "Call (MRSetCameraPropertyMode t varjo_CameraPropertyMode_Manual) \<in> set ms"
    using assms(2) n by (simp add: ms_def)
  moreover have "ms = [] \<or>
     (\<exists>m. m \<noteq> varjo_CameraPropertyMode_Manual \<and> ms = [Call (MRSetCameraPropertyMode t m)]) \<or>
     ms = [Call (MRSetCameraPropertyValue t (listed_values (camera s t) ! 0)),
           Call (MRSetCameraPropertyMode t varjo_CameraPropertyMode_Manual)] \<or>
     (\<exists>v. ms = [Call (MRSetCameraPropertyValue t v)])"
    using sh unfolding ms_def mutation_shape_def by blast
  ultimately have "ms = [Call (MRSetCameraPropertyValue t (listed_values (camera s t) ! 0)),
           Call (MRSetCameraPropertyMode t varjo_CameraPropertyMode_Manual)]"
    by auto
  then show ?thesis
    unfolding n ms_def .
qed

lemma findPropertyModeIndex_empty [simp]: "findPropertyModeIndex cm [] = -1"
  by (simp add: findPropertyModeIndex_def)

lemma findPropertyValueIndex_nonneg:
  "findPropertyValueIndex v vs \<noteq> -1 \<Longrightarrow> 0 \<le> findPropertyValueIndex v vs"
  using findPropertyValueIndex_from_found[of 0 v vs] by (simp add: findPropertyValueIndex_def)

lemma applyNextModeOrValue_next_value_result:
  assumes granted: "lockHolder s varjo_LockType_Camera = Unheld"
    and manual: "prop_mode (camera s t) = varjo_CameraPropertyMode_Manual"
    and i: "findPropertyValueIndex (prop_value (camera s t)) (listed_values (camera s t)) = i"
    and found: "i \<noteq> -1" and more: "i + 1 < int (length (listed_values (camera s t)))"
  shows "applyNextModeOrValue t s =
     Inr (unlockCamera (snd (CHECK_VARJO_ERR (varjo_MRSetCameraPropertyValue t
       (listed_values (camera s t) ! moduloIndex (i + 1) (length (listed_values (camera s t))))
       (log LOGI ''Setting the camera property manual value to: %s''
          (snd (getPropertyValueList t (afterValues t s))))))))"
proof -
  have ne: "listed_values (camera (afterValues t s) t) \<noteq> []"
    using more i found by (auto simp: findPropertyValueIndex_def)
  show ?thesis
    using applyNextModeOrValue_next_value[OF granted manual i found more]
    by (simp add: setPropertyValueToModuloIndex_Inr[OF ne])
qed

text \<open>
  C5. When the lock is granted (nobody holds it), the current mode is Manual, the
  current value is found in the fetched value list at index \<open>i\<close> and \<open>i + 1\<close> is
  below the size of the list (which, as a device count, is below \<open>2^31\<close>), the call
  returns, and between the granted lock and the one unlock it issues exactly one
  mutation: the value at index \<open>i + 1\<close>. No mode is set.
\<close>

theorem next_value_is_the_only_mutation:
  assumes granted: "lockHolder s varjo_LockType_Camera = Unheld"
    and manual: "prop_mode (camera s t) = varjo_CameraPropertyMode_Manual"
    and i: "findPropertyValueIndex (prop_value (camera s t)) (listed_values (camera s t)) = i"
    and found: "i \<noteq> -1" and more: "i + 1 < int (length (listed_values (camera s t)))"
    and small: "length (listed_values (camera s t)) < 2 ^ 31"
  shows "\<exists>s'. applyNextModeOrValue t s = Inr s' \<and>
           filter (\<lambda>e. is_mutation e \<or> camera_protocol e) (new_events s s') =
             [LockCall varjo_LockType_Camera True,
              Call (MRSetCameraPropertyValue t (listed_values (camera s t) ! nat (i + 1))),
              Call (Unlock varjo_LockType_Camera)]"
proof -
  have "0 \<le> i" using findPropertyValueIndex_nonneg i found by blast
  then have m: "moduloIndex (i + 1) (length (listed_values (camera s t))) = nat (i + 1)"
    using more small by (intro moduloIndex_small) simp_all
  show ?thesis
    unfolding applyNextModeOrValue_next_value_result[OF granted manual i found more] m
    by (simp add: new_events_def granted)
qed

text \<open>
  C9. \<open>setPropertyValueToModuloIndex\<close> fetches the value list again and reads it at
  \<open>index % size\<close>: when the fetched list is not empty the read is in bounds for every
  index and the value there is set; when it is empty the modulo by zero is reached.
  \<open>getPropertyValueList\<close> returns the empty list whenever the config type is not a
  discrete list, and \<open>applyNextModeOrValue\<close> reaches the modulo by zero then: with the
  lock granted, a current mode other than Manual found in the mode list, and Manual
  next in the cycle.
\<close>

theorem modulo_by_zero_reachable:
  "(fst (getPropertyValueList t s) \<noteq> [] \<longrightarrow>
      (\<exists>s'. setPropertyValueToModuloIndex t i s = Inr s' \<and>
         moduloIndex i (length (fst (getPropertyValueList t s)))
           < length (fst (getPropertyValueList t s)) \<and>
         filter is_mutation (new_events s s') =
           [Call (MRSetCameraPropertyValue t (fst (getPropertyValueList t s) !
              moduloIndex i (length (fst (getPropertyValueList t s)))))])) \<and>
   (fst (getPropertyValueList t s) = [] \<longrightarrow>
      setPropertyValueToModuloIndex t i s = Inl ModuloByZero) \<and>
   (prop_configType (camera s t) \<noteq> varjo_CameraPropertyConfigType_List \<longrightarrow>
      fst (getPropertyValueList t s) = []) \<and>
   (lockHolder s varjo_LockType_Camera = Unheld \<and>
    prop_mode (camera s t) \<noteq> varjo_CameraPropertyMode_Manual \<and>
    findPropertyModeIndex (prop_mode (camera s t)) (prop_modes (camera s t)) = k \<and> k \<noteq> -1 \<and>
    prop_modes (camera s t) ! moduloIndex (k + 1) (length (prop_modes (camera s t)))
      = varjo_CameraPropertyMode_Manual \<and>
    prop_configType (camera s t) \<noteq> varjo_CameraPropertyConfigType_List \<longrightarrow>
      applyNextModeOrValue t s = Inl ModuloByZero)"
proof (intro conjI impI)
  assume ne: "fst (getPropertyValueList t s) \<noteq> []"
  then have ne': "listed_values (camera s t) \<noteq> []" by simp
  show "\<exists>s'. setPropertyValueToModuloIndex t i s = Inr s' \<and>
         moduloIndex i (length (fst (getPropertyValueList t s)))
           < length (fst (getPropertyValueList t s)) \<and>
         filter is_mutation (new_events s s') =
           [Call (MRSetCameraPropertyValue t (fst (getPropertyValueList t s) !
              moduloIndex i (length (fst (getPropertyValueList t s)))))]"
    using ne' by (simp add: setPropertyValueToModuloIndex_Inr moduloIndex_less new_events_def)
next
  assume "fst (getPropertyValueList t s) = []"
  then show "setPropertyValueToModuloIndex t i s = Inl ModuloByZero"
    by (simp add: setPropertyValueToModuloIndex_empty)
next
  assume "prop_configType (camera s t) \<noteq> varjo_CameraPropertyConfigType_List"
  then show "fst (getPropertyValueList t s) = []"
    by (simp add: listed_values_def)
next
  assume a: "lockHolder s varjo_LockType_Camera = Unheld \<and>
    prop_mode (camera s t) \<noteq> varjo_CameraPropertyMode_Manual \<and>
    findPropertyModeIndex (prop_mode (camera s t)) (prop_modes (camera s t)) = k \<and> k \<noteq> -1 \<and>
    prop_modes (camera s t) ! moduloIndex (k + 1) (length (prop_modes (camera s t)))
      = varjo_CameraPropertyMode_Manual \<and>
    prop_configType (camera s t) \<noteq> varjo_CameraPropertyConfigType_List"
  then have ne: "prop_modes (camera (afterModes t s) t) \<noteq> []"
    by auto
  have m: "prop_modes (camera (afterModes t s) t) !
      moduloIndex (k + 1) (length (prop_modes (camera (afterModes t s) t)))
      = varjo_CameraPropertyMode_Manual"
    using a by simp
  have e: "listed_values (camera (afterModes t s) t) = []"
    using a by (simp add: listed_values_def)
  have "applyNextModeOrValue t s =
      applyNextMode t (prop_mode (camera s t)) (prop_modes (camera s t)) (afterModes t s)"
    using a by (simp add: applyNextModeOrValue_other)
  then show "applyNextModeOrValue t s = Inl ModuloByZero"
    using a by (simp add: applyNextMode_found
        setPropertyModeToModuloIndex_Manual_empty[OF ne m e])
qed

lemma session_of_fields [simp]:
  "lockHolder (session_of p) lt = Unheld"
  "camera (session_of p) t = p"
  "faults (session_of p) c = varjo_NoError"
  "calls (session_of p) = []"
  "lastError (session_of p) = varjo_NoError"
  by (simp_all add: session_of_def)

lemma scenario_property_fields [simp]:
  "prop_modes scenario_property =
     [varjo_CameraPropertyMode_Off, varjo_CameraPropertyMode_Auto, varjo_CameraPropertyMode_Manual]"
  "prop_configType scenario_property = varjo_CameraPropertyConfigType_List"
  "prop_values scenario_property = [int_value 100, int_value 200]"
  "prop_mode scenario_property = varjo_CameraPropertyMode_Manual"
  "prop_value scenario_property = int_value 200"
  by (simp_all add: scenario_property_def)

lemma int_value_index [simp]:
  "findPropertyValueIndex (int_value 100) [int_value 100, int_value 200] = 0"
  "findPropertyValueIndex (int_value 200) [int_value 100, int_value 200] = 1"
  by (simp_all add: findPropertyValueIndex_def int_value_def intValue_def)

theorem next_value_is_the_only_mutation_witness:
  "\<not> isl (applyNextModeOrValue varjo_CameraPropertyType_ISOValue
       (session_of (scenario_property\<lparr>prop_value := int_value 100\<rparr>))) \<and>
   filter (\<lambda>e. is_mutation e \<or> camera_protocol e)
     (new_events (session_of (scenario_property\<lparr>prop_value := int_value 100\<rparr>))
        (projr (applyNextModeOrValue varjo_CameraPropertyType_ISOValue
           (session_of (scenario_property\<lparr>prop_value := int_value 100\<rparr>))))) =
     [LockCall varjo_LockType_Camera True,
      Call (MRSetCameraPropertyValue varjo_CameraPropertyType_ISOValue (int_value 200)),
      Call (Unlock varjo_LockType_Camera)]"
proof -
  let ?s = "session_of (scenario_property\<lparr>prop_value := int_value 100\<rparr>)"
  let ?t = varjo_CameraPropertyType_ISOValue
  have h1: "lockHolder ?s varjo_LockType_Camera = Unheld"
    and h2: "prop_mode (camera ?s ?t) = varjo_CameraPropertyMode_Manual"
    and h3: "findPropertyValueIndex (prop_value (camera ?s ?t)) (listed_values (camera ?s ?t)) = 0"
    and h4: "(0::int) \<noteq> -1"
    and h5: "0 + 1 < int (length (listed_values (camera ?s ?t)))"
    and h6: "length (listed_values (camera ?s ?t)) < 2 ^ 31"
    by (simp_all add: listed_values_def)
  from next_value_is_the_only_mutation[OF h1 h2 h3 h4 h5 h6]
  obtain s' where "applyNextModeOrValue ?t ?s = Inr s'"
    "filter (\<lambda>e. is_mutation e \<or> camera_protocol e) (new_events ?s s') =
       [LockCall varjo_LockType_Camera True,
        Call (MRSetCameraPropertyValue ?t (listed_values (camera ?s ?t) ! nat (0 + 1))),
        Call (Unlock varjo_LockType_Camera)]"
    by blast
  then show ?thesis by (simp add: listed_values_def)
qed

lemma applyNextModeOrValue_to_Manual_result:
  assumes granted: "lockHolder s varjo_LockType_Camera = Unheld"
    and other: "prop_mode (camera s t) \<noteq> varjo_CameraPropertyMode_Manual"
    and k: "findPropertyModeIndex (prop_mode (camera s t)) (prop_modes (camera s t)) = k"
    and found: "k \<noteq> -1"
    and m: "prop_modes (camera s t) ! moduloIndex (k + 1) (length (prop_modes (camera s t)))
      = varjo_CameraPropertyMode_Manual"
    and vs: "listed_values (camera s t) \<noteq> []"
  shows "applyNextModeOrValue t s =
     Inr (unlockCamera (snd (CHECK_VARJO_ERR (varjo_MRSetCameraPropertyMode t
       varjo_CameraPropertyMode_Manual
       (snd (CHECK_VARJO_ERR (varjo_MRSetCameraPropertyValue t (listed_values (camera s t) ! 0)
          (log LOGI ''Setting the camera property manual value to: %s''
            (snd (getPropertyValueList t
               (log LOGI ''Setting the camera property mode to: %s''
                  (snd (getPropertyModeList t (afterModes t s))))))))))))))"
proof -
  have ne: "prop_modes (camera (afterModes t s) t) \<noteq> []"
    using k found by auto
  have m': "prop_modes (camera (afterModes t s) t) !
      moduloIndex (k + 1) (length (prop_modes (camera (afterModes t s) t)))
      = varjo_CameraPropertyMode_Manual"
    using m by simp
  have vs': "listed_values (camera (afterModes t s) t) \<noteq> []"
    using vs by simp
  have "applyNextModeOrValue t s =
      applyNextMode t (prop_mode (camera s t)) (prop_modes (camera s t)) (afterModes t s)"
    using granted other by (simp add: applyNextModeOrValue_other)
  then show ?thesis
    using k found by (simp add: applyNextMode_found
        setPropertyModeToModuloIndex_Manual[OF ne m' vs'])
qed

theorem manual_value_before_mode_witness:
  "\<not> isl (applyNextModeOrValue varjo_CameraPropertyType_ISOValue
       (session_of (scenario_property\<lparr>prop_mode := varjo_CameraPropertyMode_Auto\<rparr>))) \<and>
   Call (MRSetCameraPropertyMode varjo_CameraPropertyType_ISOValue varjo_CameraPropertyMode_Manual)
     \<in> set (new_events (session_of (scenario_property\<lparr>prop_mode := varjo_CameraPropertyMode_Auto\<rparr>))
        (projr (applyNextModeOrValue varjo_CameraPropertyType_ISOValue
           (session_of (scenario_property\<lparr>prop_mode := varjo_CameraPropertyMode_Auto\<rparr>))))) \<and>
   filter is_mutation
     (new_events (session_of (scenario_property\<lparr>prop_mode := varjo_CameraPropertyMode_Auto\<rparr>))
        (projr (applyNextModeOrValue varjo_CameraPropertyType_ISOValue
           (session_of (scenario_property\<lparr>prop_mode := varjo_CameraPropertyMode_Auto\<rparr>))))) =
     [Call (MRSetCameraPropertyValue varjo_CameraPropertyType_ISOValue (int_value 100)),
      Call (MRSetCameraPropertyMode varjo_CameraPropertyType_ISOValue
        varjo_CameraPropertyMode_Manual)]"
proof -
  let ?s = "session_of (scenario_property\<lparr>prop_mode := varjo_CameraPropertyMode_Auto\<rparr>)"
  let ?t = varjo_CameraPropertyType_ISOValue
  have h1: "lockHolder ?s varjo_LockType_Camera = Unheld"
    and h2: "prop_mode (camera ?s ?t) \<noteq> varjo_CameraPropertyMode_Manual"
    and h3: "findPropertyModeIndex (prop_mode (camera ?s ?t)) (prop_modes (camera ?s ?t)) = 1"
    and h4: "(1::int) \<noteq> -1"
    and h5: "prop_modes (camera ?s ?t) ! moduloIndex (1 + 1) (length (prop_modes (camera ?s ?t)))
      = varjo_CameraPropertyMode_Manual"
    and h6: "listed_values (camera ?s ?t) \<noteq> []"
    by (simp_all add: listed_values_def findPropertyModeIndex_def moduloIndex_def)
  note r = applyNextModeOrValue_to_Manual_result[OF h1 h2 h3 h4 h5 h6]
  have r': "applyNextModeOrValue ?t ?s = Inr (projr (applyNextModeOrValue ?t ?s))"
    by (simp add: r)
  have mem: "Call (MRSetCameraPropertyMode ?t varjo_CameraPropertyMode_Manual)
     \<in> set (new_events ?s (projr (applyNextModeOrValue ?t ?s)))"
    by (simp add: r new_events_def)
  have ni: "\<not> isl (applyNextModeOrValue ?t ?s)"
    by (simp add: r)
  have v: "listed_values (camera ?s ?t) ! 0 = int_value 100"
    by (simp add: listed_values_def)
  note f = manual_value_before_mode[OF r' mem]
  show ?thesis
    using ni mem f unfolding v by blast
qed

theorem modulo_by_zero_reachable_witness:
  "setPropertyValueToModuloIndex varjo_CameraPropertyType_ISOValue 5 scenario
     \<noteq> Inl ModuloByZero \<and>
   setPropertyValueToModuloIndex varjo_CameraPropertyType_ISOValue 5
     (session_of (scenario_property\<lparr>prop_configType := varjo_CameraPropertyConfigType_Range,
        prop_mode := varjo_CameraPropertyMode_Auto\<rparr>)) = Inl ModuloByZero \<and>
   applyNextModeOrValue varjo_CameraPropertyType_ISOValue
     (session_of (scenario_property\<lparr>prop_configType := varjo_CameraPropertyConfigType_Range,
        prop_mode := varjo_CameraPropertyMode_Auto\<rparr>)) = Inl ModuloByZero"
proof -
  let ?t = varjo_CameraPropertyType_ISOValue
  let ?r = "session_of (scenario_property\<lparr>prop_configType := varjo_CameraPropertyConfigType_Range,
        prop_mode := varjo_CameraPropertyMode_Auto\<rparr>)"
  have a: "fst (getPropertyValueList ?t scenario) \<noteq> []"
    by (simp add: scenario_def listed_values_def)
  have b: "prop_configType (camera ?r ?t) \<noteq> varjo_CameraPropertyConfigType_List"
    by simp
  have c: "lockHolder ?r varjo_LockType_Camera = Unheld \<and>
    prop_mode (camera ?r ?t) \<noteq> varjo_CameraPropertyMode_Manual \<and>
    findPropertyModeIndex (prop_mode (camera ?r ?t)) (prop_modes (camera ?r ?t)) = 1 \<and>
    (1::int) \<noteq> -1 \<and>
    prop_modes (camera ?r ?t) ! moduloIndex (1 + 1) (length (prop_modes (camera ?r ?t)))
      = varjo_CameraPropertyMode_Manual \<and>
    prop_configType (camera ?r ?t) \<noteq> varjo_CameraPropertyConfigType_List"
    by (simp add: findPropertyModeIndex_def moduloIndex_def)
  from modulo_by_zero_reachable[of ?t scenario 5 1] a
  have 1: "setPropertyValueToModuloIndex ?t 5 scenario \<noteq> Inl ModuloByZero"
    by auto
  from modulo_by_zero_reachable[of ?t ?r 5 1] b c
  have 2: "setPropertyValueToModuloIndex ?t 5 ?r = Inl ModuloByZero"
    and 3: "applyNextModeOrValue ?t ?r = Inl ModuloByZero"
    by blast+
  show ?thesis using 1 2 3 by blast
qed


section \<open>ChromaKeyManager: shadow flags and the device\<close>

text \<open>
  C7. \<open>toggleChromaKeying\<close> called with the value the shadow flag already has returns
  false, leaves the manager as it is and calls nothing on the device. Called with the
  other value it issues one device call, the switch, followed by the error query; it
  returns true and updates the shadow flag exactly when that query finds no error
  (the device accepted the switch and no earlier error was pending), and otherwise
  returns false with the manager unchanged.
\<close>

theorem toggleChromaKeying_shadow:
  assumes "toggleChromaKeying enabled m s = (r, m', s')"
  shows "(enabled = m_chromaKeyEnabled m \<longrightarrow>
            \<not> r \<and> m' = m \<and> filter is_device_call (new_events s s') = []) \<and>
         (enabled \<noteq> m_chromaKeyEnabled m \<longrightarrow>
            filter is_device_call (new_events s s') =
              [Call (MRSetChromaKey enabled), Call GetError] \<and>
            filter is_mutation (new_events s s') = [Call (MRSetChromaKey enabled)] \<and>
            (r \<longleftrightarrow> faults s (MRSetChromaKey enabled) = varjo_NoError \<and>
                   lastError s = varjo_NoError) \<and>
            (r \<longrightarrow> m' = m\<lparr>m_chromaKeyEnabled := enabled\<rparr>) \<and>
            (\<not> r \<longrightarrow> m' = m))"
  using assms
  by (auto simp: toggleChromaKeying_def new_events_def dev_defs Let_def split: if_splits)

theorem toggleChromaKeying_shadow_witness:
  "\<not> fst (toggleChromaKeying True (manager_of False True) scenario) \<and>
   fst (snd (toggleChromaKeying True (manager_of False True) scenario)) = manager_of False True \<and>
   filter is_device_call (new_events scenario
     (snd (snd (toggleChromaKeying True (manager_of False True) scenario)))) = [] \<and>
   fst (toggleChromaKeying True (manager_of False False) scenario) \<and>
   fst (snd (toggleChromaKeying True (manager_of False False) scenario)) = manager_of False True \<and>
   \<not> fst (toggleChromaKeying True (manager_of False False)
            (refusing (MRSetChromaKey True) 1 scenario)) \<and>
   fst (snd (toggleChromaKeying True (manager_of False False)
              (refusing (MRSetChromaKey True) 1 scenario))) = manager_of False False"
proof -
  let ?a = "toggleChromaKeying True (manager_of False True) scenario"
  let ?b = "toggleChromaKeying True (manager_of False False) scenario"
  let ?c = "toggleChromaKeying True (manager_of False False)
              (refusing (MRSetChromaKey True) 1 scenario)"
  have ea: "True = m_chromaKeyEnabled (manager_of False True)"
    and eb: "True \<noteq> m_chromaKeyEnabled (manager_of False False)"
    by (simp_all add: manager_of_def)
  have fc: "faults (refusing (MRSetChromaKey True) 1 scenario) (MRSetChromaKey True)
              \<noteq> varjo_NoError"
    by (simp add: refusing_def)
  have okb: "faults scenario (MRSetChromaKey True) = varjo_NoError \<and>
             lastError scenario = varjo_NoError"
    by (simp add: scenario_def)
  have up: "manager_of False False\<lparr>m_chromaKeyEnabled := True\<rparr> = manager_of False True"
    by (simp add: manager_of_def)
  have a: "?a = (fst ?a, fst (snd ?a), snd (snd ?a))" by simp
  have b: "?b = (fst ?b, fst (snd ?b), snd (snd ?b))" by simp
  have c: "?c = (fst ?c, fst (snd ?c), snd (snd ?c))" by simp
  note ta = toggleChromaKeying_shadow[OF a]
  note tb = toggleChromaKeying_shadow[OF b]
  note tc = toggleChromaKeying_shadow[OF c]
  have ra: "\<not> fst ?a \<and> fst (snd ?a) = manager_of False True \<and>
     filter is_device_call (new_events scenario (snd (snd ?a))) = []"
    using ta ea by blast
  have rb: "fst ?b \<and> fst (snd ?b) = manager_of False True"
    using tb eb okb up by metis
  have rc: "\<not> fst ?c \<and> fst (snd ?c) = manager_of False False"
    using tc eb fc by blast
  show ?thesis using ra rb rc by blast
qed

lemma log_chroma_fields [simp]:
  "chromaKeyConfigs (log l msg s) = chromaKeyConfigs s"
  "chromaKey (log l msg s) = chromaKey s"
  by (simp_all add: log_def emit_def)

lemma print_fields [simp]:
  "\<exists>l. calls (print config s) = calls s @ [Log LOGD l]"
  "lockHolder (print config s) = lockHolder s"
  "faults (print config s) = faults s"
  "lastError (print config s) = lastError s"
  "chromaKeyConfigs (print config s) = chromaKeyConfigs s"
  by (simp_all add: print_def log_def emit_def split: varjo_ChromaKeyType.splits)

text \<open>
  C8. \<open>setConfig\<close> called while the shadow flag says unlocked logs the error "Config
  lock required for this action." and then still issues the device call that writes
  the slot, followed by the error query. What it returns says only whether that query
  found no error: the device accepted the write (no fault, the chroma key lock held
  on the device, the slot index in range) and no earlier error was pending.
\<close>

theorem setConfig_unlocked_still_calls:
  assumes "\<not> m_configLocked m"
  shows "(\<exists>l. new_events s (snd (snd (setConfig index config m s))) =
           [Log LOGD l, Log LOGE ''Config lock required for this action.'',
            Call (MRSetChromaKeyConfig index config), Call GetError] @
           (if fst (setConfig index config m s) then [] else [Log LOGE ''Varjo error''])) \<and>
         (fst (setConfig index config m s) \<longleftrightarrow>
           faults s (MRSetChromaKeyConfig index config) = varjo_NoError \<and>
           lockHolder s varjo_LockType_ChromaKey = HeldBySelf \<and>
           0 \<le> index \<and> index < int (length (chromaKeyConfigs s)) \<and>
           lastError s = varjo_NoError)"
proof (rule conjI)
  obtain l where l: "calls (print config s) = calls s @ [Log LOGD l]"
    using print_fields(1) by blast
  have "new_events s (snd (snd (setConfig index config m s))) =
           [Log LOGD l, Log LOGE ''Config lock required for this action.'',
            Call (MRSetChromaKeyConfig index config), Call GetError] @
           (if fst (setConfig index config m s) then [] else [Log LOGE ''Varjo error''])"
    using assms l
    by (simp add: setConfig_def CHECK_CONFIG_LOCK_def new_events_def Let_def split_beta
        varjo_MRSetChromaKeyConfig_def guarded_def emit_def errlog_def)
  then show "\<exists>l. new_events s (snd (snd (setConfig index config m s))) =
           [Log LOGD l, Log LOGE ''Config lock required for this action.'',
            Call (MRSetChromaKeyConfig index config), Call GetError] @
           (if fst (setConfig index config m s) then [] else [Log LOGE ''Varjo error''])"
    by blast
next
  show "fst (setConfig index config m s) \<longleftrightarrow>
           faults s (MRSetChromaKeyConfig index config) = varjo_NoError \<and>
           lockHolder s varjo_LockType_ChromaKey = HeldBySelf \<and>
           0 \<le> index \<and> index < int (length (chromaKeyConfigs s)) \<and>
           lastError s = varjo_NoError"
    using assms
    by (auto simp: setConfig_def CHECK_CONFIG_LOCK_def Let_def split_beta
        varjo_MRSetChromaKeyConfig_def guarded_def emit_def notLockedError_def)
qed

theorem setConfig_unlocked_still_calls_witness:
  "(\<exists>l. new_events (holding varjo_LockType_ChromaKey (session_of scenario_property\<lparr>chromaKeyConfigs := [disabled_config]\<rparr>))
      (snd (snd (setConfig 0 disabled_config (manager_of False False)
         (holding varjo_LockType_ChromaKey (session_of scenario_property\<lparr>chromaKeyConfigs := [disabled_config]\<rparr>))))) =
      [Log LOGD l, Log LOGE ''Config lock required for this action.'',
       Call (MRSetChromaKeyConfig 0 disabled_config), Call GetError]) \<and>
   fst (setConfig 0 disabled_config (manager_of False False)
         (holding varjo_LockType_ChromaKey (session_of scenario_property\<lparr>chromaKeyConfigs := [disabled_config]\<rparr>))) \<and>
   \<not> fst (setConfig 0 disabled_config (manager_of False False) scenario)"
proof -
  let ?h = "holding varjo_LockType_ChromaKey (session_of scenario_property\<lparr>chromaKeyConfigs := [disabled_config]\<rparr>)"
  let ?m = "manager_of False False"
  have u: "\<not> m_configLocked ?m"
    by (simp add: manager_of_def)
  have ok: "faults ?h (MRSetChromaKeyConfig 0 disabled_config) = varjo_NoError \<and>
           lockHolder ?h varjo_LockType_ChromaKey = HeldBySelf \<and>
           (0::int) \<le> 0 \<and> 0 < int (length (chromaKeyConfigs ?h)) \<and>
           lastError ?h = varjo_NoError"
    by (simp add: holding_def session_of_def)
  have no: "lockHolder scenario varjo_LockType_ChromaKey \<noteq> HeldBySelf"
    by (simp add: scenario_def)
  note t1 = setConfig_unlocked_still_calls[OF u, where s = ?h and index = 0
      and config = disabled_config]
  note t2 = setConfig_unlocked_still_calls[OF u, where s = scenario and index = 0
      and config = disabled_config]
  have r: "fst (setConfig 0 disabled_config ?m ?h)"
    using t1 ok by blast
  have "\<exists>l. new_events ?h (snd (snd (setConfig 0 disabled_config ?m ?h))) =
      [Log LOGD l, Log LOGE ''Config lock required for this action.'',
       Call (MRSetChromaKeyConfig 0 disabled_config), Call GetError]"
    using t1 r by simp
  moreover have "\<not> fst (setConfig 0 disabled_config ?m scenario)"
    using t2 no by blast
  ultimately show ?thesis using r by blast
qed

text \<open>
  C10. \<open>unlockConfig\<close> called while the shadow flag says locked issues the device
  unlock and the error query, and afterwards the shadow flag says unlocked whatever
  the device answered; when the device refuses the unlock, the lock stays as it was on
  the device while the shadow says unlocked.
\<close>

theorem unlockConfig_clears_shadow:
  assumes "m_configLocked m"
  shows "\<not> m_configLocked (fst (unlockConfig m s)) \<and>
         filter is_device_call (new_events s (snd (unlockConfig m s))) =
           [Call (Unlock varjo_LockType_ChromaKey), Call GetError] \<and>
         (faults s (Unlock varjo_LockType_ChromaKey) \<noteq> varjo_NoError \<longrightarrow>
            lockHolder (snd (unlockConfig m s)) = lockHolder s)"
  using assms
  by (simp add: unlockConfig_def CHECK_CONFIG_LOCK_def new_events_def Let_def split_beta
      accepted_def)

theorem unlockConfig_clears_shadow_witness:
  "\<not> m_configLocked (fst (unlockConfig (manager_of True False)
        (refusing (Unlock varjo_LockType_ChromaKey) 1 (holding varjo_LockType_ChromaKey scenario)))) \<and>
   lockHolder (snd (unlockConfig (manager_of True False)
        (refusing (Unlock varjo_LockType_ChromaKey) 1 (holding varjo_LockType_ChromaKey scenario))))
      varjo_LockType_ChromaKey = HeldBySelf"
proof -
  let ?s = "refusing (Unlock varjo_LockType_ChromaKey) 1 (holding varjo_LockType_ChromaKey scenario)"
  have l: "m_configLocked (manager_of True False)"
    by (simp add: manager_of_def)
  have f: "faults ?s (Unlock varjo_LockType_ChromaKey) \<noteq> varjo_NoError"
    by (simp add: refusing_def)
  have h: "lockHolder ?s varjo_LockType_ChromaKey = HeldBySelf"
    by (simp add: refusing_def holding_def)
  from unlockConfig_clears_shadow[OF l, of ?s] f h
  show ?thesis by simp
qed

section \<open>The full cycle\<close>








lemma framed_update [simp]:
  "framed M V (p\<lparr>prop_mode := a\<rparr>) = framed M V p"
  "framed M V (p\<lparr>prop_value := b\<rparr>) = framed M V p"
  by (simp_all add: framed_def)









end
